theory Spec2Isabelle
  imports Complex_Main "HOL-Library.Sublist" "HOL-Library.AList"
begin

section \<open>Conventions of the embedding\<close>

text \<open>
  The Python sources are embedded function by function, keeping their names.
  \<^item> A Python \<open>str\<close> is a \<^typ>\<open>string\<close> holding its UTF-8 bytes; the Korean keywords of the
    pattern tables are written out as their bytes. Substring tests (\<open>a in b\<close>) are
    \<^const>\<open>sublist\<close>, \<open>startswith\<close> is \<^const>\<open>prefix\<close>. White space is the ASCII part of
    what \<open>str.isspace\<close> accepts, and \<open>lower\<close> folds the ASCII letters.
  \<^item> A Python \<open>float\<close> is a \<^typ>\<open>real\<close>, the number it stands for. The engine and the
    feedback processor round every operation to binary64, as is set out with the engine; the
    match score of the preprocessor and the success rate of the store are the exact products
    and quotients, and the concrete inputs there are chosen away from any rounding boundary.
  \<^item> A raised exception is the \<open>Inl\<close> of a result \<open>error + 'a\<close>.
  \<^item> \<open>datetime.now()\<close> is a parameter \<open>now\<close>, in whole seconds since the epoch.
\<close>

datatype error =
    NameError string
  | DatabaseError
  | ZeroDivisionError
  | AnalyzerError

section \<open>Strings\<close>

definition isspace :: "char \<Rightarrow> bool" where
  "isspace c = (let n = (of_char c :: nat) in (9 \<le> n \<and> n \<le> 13) \<or> (28 \<le> n \<and> n \<le> 32))"

definition strip :: "string \<Rightarrow> string" where
  "strip s = rev (dropWhile isspace (rev (dropWhile isspace s)))"

definition lower_char :: "char \<Rightarrow> char" where
  "lower_char c = (let n = (of_char c :: nat) in if 65 \<le> n \<and> n \<le> 90 then char_of (n + 32) else c)"

definition lower :: "string \<Rightarrow> string" where
  "lower s = map lower_char s"

text \<open>\<open>s.replace(old, new)\<close>: the occurrences of \<open>old\<close> are replaced from the left and do not
  overlap; an empty \<open>old\<close> puts \<open>new\<close> around every character.\<close>

function replace :: "string \<Rightarrow> string \<Rightarrow> string \<Rightarrow> string" where
  "replace old new [] = (if old = [] then new else [])"
| "replace old new (c # cs) =
     (if old = [] then new @ c # replace old new cs
      else if prefix old (c # cs) then new @ replace old new (drop (length old) (c # cs))
      else c # replace old new cs)"
  by pat_completeness auto
termination
  by (relation "measure (\<lambda>(old, new, s). length s)") auto

text \<open>Python's \<open>int(x)\<close> on a float truncates towards zero.\<close>

definition py_int :: "real \<Rightarrow> int" where
  "py_int x = (if 0 \<le> x then \<lfloor>x\<rfloor> else \<lceil>x\<rceil>)"

section \<open>The preprocessor: \<open>claude_sc_preprocessor.py\<close>\<close>

record ProjectContext =
  project_type :: string
  domain :: string
  complexity :: string
  file_count :: int
  framework :: "string option"
  language :: "string option"

text \<open>The \<open>reasoning\<close> text of a recommendation is an f-string over a pattern name and a score;
  it is kept as the data it is formatted from.\<close>

datatype reasoning =
    OrchestratorMatch string
  | PatternMatch string real
  | DefaultCommand

record FlagRecommendation =
  flags :: string
  confidence :: int
  reason :: reasoning
  mcp_servers :: "string list"
  personas :: "string list"

record pattern_info =
  rule_keywords :: "string list"
  base_flags :: string
  rule_confidence :: int
  rule_mcp_servers :: "string list"

text \<open>Korean keywords, as UTF-8.\<close>

definition ko_analysis :: string where
  "ko_analysis = [CHR 0xEB, CHR 0xB6, CHR 0x84, CHR 0xEC, CHR 0x84, CHR 0x9D]"
definition ko_review :: string where
  "ko_review = [CHR 0xEA, CHR 0xB2, CHR 0x80, CHR 0xED, CHR 0x86, CHR 0xA0]"
definition ko_security :: string where
  "ko_security = [CHR 0xEB, CHR 0xB3, CHR 0xB4, CHR 0xEC, CHR 0x95, CHR 0x88]"
definition ko_vulnerability :: string where
  "ko_vulnerability = [CHR 0xEC, CHR 0xB7, CHR 0xA8, CHR 0xEC, CHR 0x95, CHR 0xBD, CHR 0xEC, CHR 0xA0, CHR 0x90]"
definition ko_performance :: string where
  "ko_performance = [CHR 0xEC, CHR 0x84, CHR 0xB1, CHR 0xEB, CHR 0x8A, CHR 0xA5]"
definition ko_optimize :: string where
  "ko_optimize = [CHR 0xEC, CHR 0xB5, CHR 0x9C, CHR 0xEC, CHR 0xA0, CHR 0x81, CHR 0xED, CHR 0x99, CHR 0x94]"
definition ko_component :: string where
  "ko_component = [CHR 0xEC, CHR 0xBB, CHR 0xB4, CHR 0xED, CHR 0x8F, CHR 0xAC, CHR 0xEB, CHR 0x84, CHR 0x8C,
     CHR 0xED, CHR 0x8A, CHR 0xB8]"
definition ko_server :: string where
  "ko_server = [CHR 0xEC, CHR 0x84, CHR 0x9C, CHR 0xEB, CHR 0xB2, CHR 0x84]"
definition ko_improve :: string where
  "ko_improve = [CHR 0xEA, CHR 0xB0, CHR 0x9C, CHR 0xEC, CHR 0x84, CHR 0xA0]"
definition ko_refactoring :: string where
  "ko_refactoring = [CHR 0xEB, CHR 0xA6, CHR 0xAC, CHR 0xED, CHR 0x8C, CHR 0xA9, CHR 0xED, CHR 0x86, CHR 0xA0,
     CHR 0xEB, CHR 0xA7, CHR 0x81]"
definition ko_architecture :: string where
  "ko_architecture = [CHR 0xEC, CHR 0x95, CHR 0x84, CHR 0xED, CHR 0x82, CHR 0xA4, CHR 0xED, CHR 0x85, CHR 0x8D,
     CHR 0xEC, CHR 0xB2, CHR 0x98]"
definition ko_audit :: string where
  "ko_audit = [CHR 0xEA, CHR 0xB0, CHR 0x90, CHR 0xEC, CHR 0x82, CHR 0xAC]"
definition ko_implement :: string where
  "ko_implement = [CHR 0xEA, CHR 0xB5, CHR 0xAC, CHR 0xED, CHR 0x98, CHR 0x84]"
definition ko_auth :: string where
  "ko_auth = [CHR 0xEC, CHR 0x9D, CHR 0xB8, CHR 0xEC, CHR 0xA6, CHR 0x9D]"
definition ko_backend :: string where
  "ko_backend = [CHR 0xEB, CHR 0xB0, CHR 0xB1, CHR 0xEC, CHR 0x97, CHR 0x94, CHR 0xEB, CHR 0x93, CHR 0x9C]"

text \<open>\<open>PatternMatcher._get_default_rules\<close>: the dictionary \<open>rules['patterns']\<close>, in its order.\<close>

definition get_default_rules :: "(string \<times> pattern_info) list" where
  "get_default_rules =
    [(''analyze_general'',
        \<lparr>rule_keywords = [''analyze'', ko_analysis, ''review'', ko_review],
         base_flags = ''--persona-analyzer --think'',
         rule_confidence = 85, rule_mcp_servers = [''Sequential'']\<rparr>),
     (''analyze_security'',
        \<lparr>rule_keywords = [''security'', ko_security, ''vulnerability'', ko_vulnerability, ''audit''],
         base_flags = ''--persona-security --focus security --think --validate'',
         rule_confidence = 95, rule_mcp_servers = [''Sequential'']\<rparr>),
     (''analyze_performance'',
        \<lparr>rule_keywords = [''performance'', ko_performance, ''optimize'', ko_optimize, ''bottleneck''],
         base_flags = ''--persona-performance --think-hard --focus performance'',
         rule_confidence = 90, rule_mcp_servers = [''Sequential'', ''Playwright'']\<rparr>),
     (''implement_ui'',
        \<lparr>rule_keywords = [''component'', ko_component, ''ui'', ''interface'', ''frontend''],
         base_flags = ''--persona-frontend --magic --c7'',
         rule_confidence = 94, rule_mcp_servers = [''Magic'', ''Context7'']\<rparr>),
     (''implement_api'',
        \<lparr>rule_keywords = [''api'', ''endpoint'', ''backend'', ''server'', ko_server],
         base_flags = ''--persona-backend --seq --c7'',
         rule_confidence = 92, rule_mcp_servers = [''Sequential'', ''Context7'']\<rparr>),
     (''improve_quality'',
        \<lparr>rule_keywords = [''improve'', ko_improve, ''refactor'', ko_refactoring, ''cleanup''],
         base_flags = ''--persona-refactorer --loop --validate'',
         rule_confidence = 88, rule_mcp_servers = [''Sequential'']\<rparr>)]"

text \<open>The routing table of \<open>_load_orchestrator_patterns\<close>. Each regular expression has the
  shape \<open>(a1|a2).*(b1|b2)\<close>; it is kept as its two lists of alternatives.\<close>

record orchestrator_info =
  first_alts :: "string list"
  second_alts :: "string list"
  orch_flags :: string
  orch_confidence :: int

definition load_orchestrator_patterns :: "(string \<times> orchestrator_info) list" where
  "load_orchestrator_patterns =
    [(''analyze_architecture'',
        \<lparr>first_alts = [''analyze'', ko_analysis], second_alts = [''architecture'', ko_architecture],
         orch_flags = ''--persona-architect --ultrathink --seq'', orch_confidence = 95\<rparr>),
     (''security_audit'',
        \<lparr>first_alts = [''security'', ko_security], second_alts = [''audit'', ko_audit],
         orch_flags = ''--persona-security --ultrathink --seq --validate'', orch_confidence = 95\<rparr>),
     (''implement_auth'',
        \<lparr>first_alts = [''implement'', ko_implement], second_alts = [''auth'', ko_auth],
         orch_flags = ''--persona-security --persona-backend --validate'', orch_confidence = 90\<rparr>),
     (''optimize_performance'',
        \<lparr>first_alts = [''optimize'', ko_optimize], second_alts = [''performance'', ko_performance],
         orch_flags = ''--persona-performance --think-hard --play'', orch_confidence = 90\<rparr>)]"

text \<open>\<open>re.search\<close> of \<open>(a1|a2).*(b1|b2)\<close>: somewhere an \<open>a\<close>, then characters other than a
  newline, then a \<open>b\<close>. The text searched is already lower case, as are the patterns.\<close>

fun gap_then :: "string list \<Rightarrow> string \<Rightarrow> bool" where
  "gap_then bs [] = list_ex (\<lambda>b. b = []) bs"
| "gap_then bs (c # cs) =
     (list_ex (\<lambda>b. prefix b (c # cs)) bs \<or> (c \<noteq> CHR 0x0A \<and> gap_then bs cs))"

definition match_here :: "string list \<Rightarrow> string list \<Rightarrow> string \<Rightarrow> bool" where
  "match_here as bs s = list_ex (\<lambda>a. prefix a s \<and> gap_then bs (drop (length a) s)) as"

fun re_search :: "string list \<Rightarrow> string list \<Rightarrow> string \<Rightarrow> bool" where
  "re_search as bs [] = match_here as bs []"
| "re_search as bs (c # cs) = (match_here as bs (c # cs) \<or> re_search as bs cs)"

definition extract_mcp_servers :: "string \<Rightarrow> string list" where
  "extract_mcp_servers fl =
     (if sublist ''--seq'' fl \<or> sublist ''--sequential'' fl then [''Sequential''] else []) @
     (if sublist ''--c7'' fl \<or> sublist ''--context7'' fl then [''Context7''] else []) @
     (if sublist ''--magic'' fl then [''Magic''] else []) @
     (if sublist ''--play'' fl \<or> sublist ''--playwright'' fl then [''Playwright''] else [])"

definition persona_map :: "(string \<times> string) list" where
  "persona_map =
    [(''--persona-analyzer'', ''analyzer''), (''--persona-architect'', ''architect''),
     (''--persona-security'', ''security''), (''--persona-performance'', ''performance''),
     (''--persona-frontend'', ''frontend''), (''--persona-backend'', ''backend''),
     (''--persona-refactorer'', ''refactorer'')]"

definition extract_personas :: "string \<Rightarrow> string list" where
  "extract_personas fl = map snd (filter (\<lambda>(flag, persona). sublist flag fl) persona_map)"

definition calculate_match_score :: "string \<Rightarrow> string list \<Rightarrow> real" where
  "calculate_match_score text kws =
     (if kws = [] then 0
      else real (length (filter (\<lambda>keyword. sublist (lower keyword) (lower text)) kws))
           / real (length kws))"

definition apply_context_modifiers :: "string \<Rightarrow> ProjectContext \<Rightarrow> string" where
  "apply_context_modifiers bf ctx =
     (let f1 = (if complexity ctx = ''complex'' \<and> sublist ''--think'' bf \<and> \<not> sublist ''--think-hard'' bf
                then replace ''--think'' ''--think-hard'' bf else bf);
          f2 = (if project_type ctx = ''python_backend'' \<and> \<not> sublist ''--persona-backend'' f1
                   \<and> sublist ''analyze'' f1
                then f1 @ '' --validate'' else f1);
          f3 = (if file_count ctx > 50 then f2 @ '' --delegate'' else f2)
      in f3 @ '' --uc'')"

definition get_default_recommendation :: "string \<Rightarrow> ProjectContext \<Rightarrow> FlagRecommendation" where
  "get_default_recommendation command ctx =
     (let (fl, conf) =
            (if sublist ''analyze'' command then (''--persona-analyzer --think --uc'', 70)
             else if sublist ''implement'' command then
               (if project_type ctx = ''python_backend'' then ''--persona-backend --c7 --uc''
                else ''--persona-frontend --magic --uc'', 75)
             else if sublist ''improve'' command then (''--persona-refactorer --think --uc'', 70)
             else (''--think --uc'', 60))
      in \<lparr>flags = fl, confidence = conf, reason = DefaultCommand,
          mcp_servers = extract_mcp_servers fl, personas = extract_personas fl\<rparr>)"

text \<open>The first loop of \<open>find_best_match\<close>: the first routing pattern that matches wins.\<close>

fun orchestrator_match :: "(string \<times> orchestrator_info) list \<Rightarrow> string \<Rightarrow> FlagRecommendation option" where
  "orchestrator_match [] text = None"
| "orchestrator_match ((pattern_name, info) # rest) text =
     (if re_search (first_alts info) (second_alts info) text
      then Some \<lparr>flags = orch_flags info, confidence = orch_confidence info,
                 reason = OrchestratorMatch pattern_name,
                 mcp_servers = extract_mcp_servers (orch_flags info),
                 personas = extract_personas (orch_flags info)\<rparr>
      else orchestrator_match rest text)"

definition priority_patterns :: "string list" where
  "priority_patterns =
     [''analyze_security'', ''analyze_performance'', ''analyze_architecture'', ''implement_authentication'']"

text \<open>The second loop: the first priority pattern that is in the rules and has a keyword in
  the text is taken, with a bonus of 0.5; names absent from the rules are skipped.\<close>

fun priority_match ::
  "(string \<times> pattern_info) list \<Rightarrow> string list \<Rightarrow> string \<Rightarrow> (string \<times> pattern_info \<times> real) option" where
  "priority_match rules [] text = None"
| "priority_match rules (pattern_name # rest) text =
     (case map_of rules pattern_name of
        None \<Rightarrow> priority_match rules rest text
      | Some info \<Rightarrow>
          (let score = calculate_match_score text (rule_keywords info)
           in if score > 0 then Some (pattern_name, info, score + 0.5)
              else priority_match rules rest text))"

text \<open>The third loop: over all rules in order, keeping the strictly best score so far.\<close>

fun general_match ::
  "(string \<times> pattern_info) list \<Rightarrow> string \<Rightarrow> (string \<times> pattern_info) option \<times> real
     \<Rightarrow> (string \<times> pattern_info) option \<times> real" where
  "general_match [] text best = best"
| "general_match ((pattern_name, info) # rest) text (best_match, highest_score) =
     (let score = calculate_match_score text (rule_keywords info)
      in if score > highest_score then general_match rest text (Some (pattern_name, info), score)
         else general_match rest text (best_match, highest_score))"

definition find_best_match ::
  "(string \<times> pattern_info) list \<Rightarrow> string \<Rightarrow> string \<Rightarrow> ProjectContext \<Rightarrow> FlagRecommendation" where
  "find_best_match rules command description ctx =
     (let full_text = lower (command @ '' '' @ description) in
      case orchestrator_match load_orchestrator_patterns full_text of
        Some r \<Rightarrow> r
      | None \<Rightarrow>
          (let (best, highest_score) =
                 (case priority_match rules priority_patterns full_text of
                    Some (n, info, s) \<Rightarrow> (Some (n, info), s)
                  | None \<Rightarrow> general_match rules full_text (None, 0))
           in case best of
                Some (best_pattern_name, best_match) \<Rightarrow>
                  (if highest_score > 0 then
                     (let fl = apply_context_modifiers (base_flags best_match) ctx
                      in \<lparr>flags = fl,
                          confidence = min 95 (py_int (real_of_int (rule_confidence best_match)
                                                         * (0.5 + highest_score * 0.5))),
                          reason = PatternMatch best_pattern_name highest_score,
                          mcp_servers = rule_mcp_servers best_match,
                          personas = extract_personas fl\<rparr>)
                   else get_default_recommendation command ctx)
              | None \<Rightarrow> get_default_recommendation command ctx))"

subsection \<open>\<open>SCCommandProcessor\<close>\<close>

text \<open>\<open>\w\<close> of the regular expression: letters, digits and the underscore; every byte of a
  non-ASCII character counts as a letter (the Korean command words are letters).\<close>

definition isword :: "char \<Rightarrow> bool" where
  "isword c = (let n = (of_char c :: nat) in
     (48 \<le> n \<and> n \<le> 57) \<or> (65 \<le> n \<and> n \<le> 90) \<or> n = 95 \<or> (97 \<le> n \<and> n \<le> 122) \<or> 128 \<le> n)"

text \<open>\<open>_parse_sc_command\<close>: \<open>re.match(r'/sc:(\w+)\s*(.*)', user_input.strip())\<close>; the dot stops
  at a newline.\<close>

definition parse_sc_command :: "string \<Rightarrow> string \<times> string" where
  "parse_sc_command user_input =
     (let s = strip user_input; rest = drop 4 s in
      if prefix ''/sc:'' s \<and> takeWhile isword rest \<noteq> [] then
        (takeWhile isword rest,
         takeWhile (\<lambda>c. c \<noteq> CHR 0x0A) (dropWhile isspace (dropWhile isword rest)))
      else (''unknown'', user_input))"

text \<open>\<open>_format_enhanced_command\<close>: a banner built from the recommendation and the context,
  then the line \<open>{original_input} {recommendation.flags}\<close>. The banner text is a parameter.\<close>

definition format_enhanced_command ::
  "(FlagRecommendation \<Rightarrow> ProjectContext \<Rightarrow> string) \<Rightarrow> string \<Rightarrow> FlagRecommendation
     \<Rightarrow> ProjectContext \<Rightarrow> string" where
  "format_enhanced_command banner original_input recommendation ctx =
     banner recommendation ctx @ original_input @ '' '' @ flags recommendation"

text \<open>\<open>process\<close>. The project analysis reads the file system: its outcome \<open>analysis\<close> is either
  the context or the exception it raised, which the \<open>except\<close> clause turns into the
  unchanged input.\<close>

definition process ::
  "(string \<times> pattern_info) list \<Rightarrow> (FlagRecommendation \<Rightarrow> ProjectContext \<Rightarrow> string)
     \<Rightarrow> error + ProjectContext \<Rightarrow> string \<Rightarrow> string" where
  "process rules banner analysis user_input =
     (if \<not> prefix ''/sc:'' (strip user_input) then user_input
      else
        (let (command, description) = parse_sc_command user_input in
         case analysis of
           Inl e \<Rightarrow> user_input
         | Inr ctx \<Rightarrow>
             format_enhanced_command banner user_input
               (find_best_match rules command description ctx) ctx))"

section \<open>The store: \<open>learning_storage.py\<close>\<close>

text \<open>
  The SQLite file is either unreadable (corrupted, or not to be opened), and then every
  statement executed on it raises, or it holds the four tables. A row of \<open>interactions\<close>
  carries its \<open>id\<close>; timestamps are the instants whose ISO text the columns hold, so that
  SQLite's comparison of the texts is the comparison of the instants. \<open>last_updated\<close> of a
  pattern is \<open>None\<close> when its text is not one that \<open>datetime.fromisoformat\<close> reads. The JSON
  object \<open>context_conditions\<close> (\<open>Dict[str, Any]\<close>) is a type parameter.
\<close>

record UserInteraction =
  i_id :: int
  i_timestamp :: int
  i_user_input :: string
  i_command :: string
  i_description :: string
  i_recommended_flags :: string
  i_actual_flags :: string
  i_project_context :: string
  i_success :: bool
  i_execution_time :: real
  i_confidence :: int
  i_reasoning :: string
  i_user_id :: string
  i_project_hash :: string

record FeedbackRecord =
  f_timestamp :: int
  f_interaction_id :: string
  f_feedback_type :: string
  f_rating :: "int option"
  f_success_indicator :: bool
  f_user_correction :: "string option"
  f_user_id :: string
  f_project_hash :: string

record 'c PatternSuccess =
  pattern_name :: string
  total_uses :: int
  successful_uses :: int
  success_rate :: real
  last_updated :: "int option"
  context_conditions :: 'c

record UserPreference =
  p_user_id :: string
  p_project_hash :: string
  p_pattern_name :: string
  preference_weight :: real
  p_last_updated :: int

record 'c tables =
  interactions :: "UserInteraction list"
  feedback :: "FeedbackRecord list"
  pattern_success :: "'c PatternSuccess list"
  user_preferences :: "UserPreference list"

datatype 'c database = Unreadable | Readable "'c tables"

record 'c LearningStorage =
  db :: "'c database"
  user_id :: string

text \<open>\<open>_init_database\<close> on a new file: four empty tables.\<close>

definition init_database :: "string \<Rightarrow> 'c LearningStorage" where
  "init_database uid =
     \<lparr>db = Readable \<lparr>interactions = [], feedback = [], pattern_success = [], user_preferences = []\<rparr>,
      user_id = uid\<rparr>"

text \<open>\<open>get_user_interactions\<close>: no \<open>try\<close> stands around the query. \<open>if project_hash:\<close> is false for
  \<open>None\<close> and for the empty string. Rows of equal timestamp come in an order SQLite does not
  fix; the model takes the later row first.\<close>

definition get_user_interactions ::
  "int \<Rightarrow> 'c LearningStorage \<Rightarrow> int \<Rightarrow> string option \<Rightarrow> error + UserInteraction list" where
  "get_user_interactions now st days project_hash =
     (let since_date = now - days * 86400 in
      case db st of
        Unreadable \<Rightarrow> Inl DatabaseError
      | Readable t \<Rightarrow>
          Inr (rev (sort_key i_timestamp
            (filter (\<lambda>row. i_user_id row = user_id st \<and> i_timestamp row > since_date \<and>
                       (case project_hash of
                          None \<Rightarrow> True
                        | Some h \<Rightarrow> h = [] \<or> i_project_hash row = h))
               (interactions t)))))"

text \<open>\<open>update_pattern_success\<close>: \<open>fetchone\<close> gives the first row of that name; the \<open>UPDATE\<close>
  writes every row of that name (the column is \<open>UNIQUE\<close>, so there is one).\<close>

definition update_pattern_success ::
  "int \<Rightarrow> 'c LearningStorage \<Rightarrow> string \<Rightarrow> bool \<Rightarrow> 'c \<Rightarrow> error + 'c LearningStorage" where
  "update_pattern_success now st name success context =
     (case db st of
        Unreadable \<Rightarrow> Inl DatabaseError
      | Readable t \<Rightarrow>
          (case find (\<lambda>row. pattern_name row = name) (pattern_success t) of
             Some result \<Rightarrow>
               (let total = total_uses result + 1;
                    successful = (if success then successful_uses result + 1 else successful_uses result)
                in if total = 0 then Inl ZeroDivisionError
                   else Inr (st\<lparr>db := Readable (t\<lparr>pattern_success :=
                          map (\<lambda>row. if pattern_name row = name
                                 then row\<lparr>total_uses := total, successful_uses := successful,
                                          success_rate := real_of_int successful / real_of_int total,
                                          last_updated := Some now, context_conditions := context\<rparr>
                                 else row)
                            (pattern_success t)\<rparr>)\<rparr>))
           | None \<Rightarrow>
               (let total = 1; successful = (if success then 1 else 0)
                in Inr (st\<lparr>db := Readable (t\<lparr>pattern_success := pattern_success t @
                          [\<lparr>pattern_name = name, total_uses = total, successful_uses = successful,
                            success_rate = real_of_int successful / real_of_int total,
                            last_updated = Some now, context_conditions = context\<rparr>]\<rparr>)\<rparr>))))"



definition record_feedback :: "'c LearningStorage \<Rightarrow> FeedbackRecord \<Rightarrow> error + 'c LearningStorage" where
  "record_feedback st fb =
     (case db st of
        Unreadable \<Rightarrow> Inl DatabaseError
      | Readable t \<Rightarrow> Inr (st\<lparr>db := Readable (t\<lparr>feedback := feedback t @ [fb]\<rparr>)\<rparr>))"


text \<open>The counters of a row agree: what the claims call the invariant of a pattern.\<close>

definition stats_ok :: "'c PatternSuccess \<Rightarrow> bool" where
  "stats_ok row =
     (0 \<le> successful_uses row \<and> successful_uses row \<le> total_uses row \<and> 0 < total_uses row \<and>
      success_rate row = real_of_int (successful_uses row) / real_of_int (total_uses row))"




section \<open>The engine: \<open>learning_engine.py\<close>\<close>

text \<open>
  A project context of the learning modules is a dictionary (\<open>Dict[str, Any]\<close>) read with
  \<open>context.get(key, default)\<close>: each key the code reads is a field, \<open>None\<close> when the key is
  absent, and the values have the types the code expects of them.
\<close>

record context_dict =
  cd_project_size :: "string option"
  cd_file_count :: "int option"
  cd_languages :: "string list option"
  cd_frameworks :: "string list option"
  cd_complexity :: "string option"
  cd_project_type :: "string option"
  cd_enhanced_flags :: "string option"

definition get_or :: "'a option \<Rightarrow> 'a \<Rightarrow> 'a" where
  "get_or v d = (case v of None \<Rightarrow> d | Some x \<Rightarrow> x)"

text \<open>
  The numbers of the engine are Python floats, that is binary64: 53 significant bits and a
  binary exponent from -1022 to 1023. A float is taken as the real number it stands for, and
  every operation on floats gives the float nearest to the exact result, the one with the even
  significand when two are equally near. Infinities and NaN are not among the values: the
  rounding is that of binary64 for results below \<open>2 ^ 1024\<close> in magnitude, which is where
  rates, weights and scores lie. \<open>math.exp\<close> is the C library's and is taken to return the
  float nearest to the exact value.
\<close>

text \<open>To the nearest integer, and to the even one from a half: the rounding of a significand,
  and Python's \<open>round\<close>.\<close>

definition py_round :: "real \<Rightarrow> int" where
  "py_round x =
     (let f = \<lfloor>x\<rfloor>; d = x - real_of_int f
      in if d < 1 / 2 then f else if d > 1 / 2 then f + 1 else if even f then f else f + 1)"

definition pow2 :: "int \<Rightarrow> real" where
  "pow2 e = (if 0 \<le> e then 2 ^ nat e else 1 / 2 ^ nat (- e))"

text \<open>The binary exponent of a float near \<open>x\<close>: the greatest \<open>e\<close> from -1022 to 1023 with
  \<open>2 ^ e \<le> \<bar>x\<bar>\<close>, and -1022 for the subnormal numbers.\<close>

fun exponent_from :: "nat \<Rightarrow> int \<Rightarrow> real \<Rightarrow> int" where
  "exponent_from 0 e x = e"
| "exponent_from (Suc n) e x = (if pow2 (e + 1) \<le> x then exponent_from n (e + 1) x else e)"

definition float_exponent :: "real \<Rightarrow> int" where
  "float_exponent x = exponent_from 2045 (- 1022) \<bar>x\<bar>"

definition round64 :: "real \<Rightarrow> real" where
  "round64 x =
     (let ulp = pow2 (float_exponent x - 52)
      in real_of_int (py_round (x / ulp)) * ulp)"

definition fadd :: "real \<Rightarrow> real \<Rightarrow> real" where
  "fadd a b = round64 (a + b)"

definition fmul :: "real \<Rightarrow> real \<Rightarrow> real" where
  "fmul a b = round64 (a * b)"

definition fdiv :: "real \<Rightarrow> real \<Rightarrow> real" where
  "fdiv a b = round64 (a / b)"

definition fexp :: "real \<Rightarrow> real" where
  "fexp x = round64 (exp x)"

record LearningPattern =
  pattern_id :: string
  lp_base_flags :: string
  lp_success_rate :: real
  usage_count :: int
  confidence_score :: real
  context_weights :: "(string \<times> real) list"
  lp_last_updated :: "int option"
  user_preference_score :: real

text \<open>The entries of \<open>reasoning\<close> are f-strings that print one number with two decimals;
  each is kept as its label and number. \<open>learning_factors\<close> holds numbers, and \<open>True\<close> under
  the key \<open>fallback\<close>.\<close>

datatype factor_note =
    SuccessRateNote real
  | PreferenceNote real
  | ContextNote real
  | ConfidenceNote real
  | RecencyNote real
  | FallbackNote

datatype factor_value = Factor real | Flag bool

record RecommendationScore =
  rs_pattern_id :: string
  rs_flags :: string
  score :: real
  rs_confidence :: int
  rs_reasoning :: "factor_note list"
  learning_factors :: "(string \<times> factor_value) list"

text \<open>The state of an engine: the pattern cache (a dictionary, in insertion order) and the
  time it was loaded. The store the engine reads keeps \<open>context_conditions\<close> as the weights
  \<open>Dict[str, float]\<close> that \<open>LearningPattern.context_weights\<close> declares.\<close>

record AdaptiveLearningEngine =
  pattern_cache :: "(string \<times> LearningPattern) list"
  cache_timestamp :: int



definition calculate_confidence_score :: "int \<Rightarrow> real \<Rightarrow> real" where
  "calculate_confidence_score usage success =
     (let usage_factor = min (fdiv (real_of_int usage) 20) 1;
          conf = fmul success usage_factor
      in min conf 1)"

text \<open>\<open>_calculate_context_similarity\<close>. The literals \<open>0.3\<close> and \<open>0.4\<close> are the floats nearest
  to three and four tenths.\<close>

definition calculate_context_similarity :: "(string \<times> real) list \<Rightarrow> context_dict \<Rightarrow> real" where
  "calculate_context_similarity pattern_context current_context =
     (if pattern_context = [] then 0.5
      else
        (let size_key = ''size_'' @ get_or (cd_project_size current_context) ''unknown'';
             sized = (case map_of pattern_context size_key of
                        Some v \<Rightarrow> (fadd 0 (fmul v (round64 0.3)), fadd 0 (round64 0.3))
                      | None \<Rightarrow> (0, 0));
             with_languages =
               fold (\<lambda>lang (similarity_score, total_weight).
                       case map_of pattern_context (''lang_'' @ lang) of
                         Some v \<Rightarrow> (fadd similarity_score (fmul v (round64 0.4)),
                                    fadd total_weight (round64 0.4))
                       | None \<Rightarrow> (similarity_score, total_weight))
                 (get_or (cd_languages current_context) []) sized;
             (similarity_score, total_weight) =
               fold (\<lambda>fw (similarity_score, total_weight).
                       case map_of pattern_context (''framework_'' @ fw) of
                         Some v \<Rightarrow> (fadd similarity_score (fmul v (round64 0.3)),
                                    fadd total_weight (round64 0.3))
                       | None \<Rightarrow> (similarity_score, total_weight))
                 (get_or (cd_frameworks current_context) []) with_languages
         in if total_weight > 0 then fdiv similarity_score total_weight else 0.5))"

text \<open>\<open>_calculate_recency_score\<close>: \<open>(now - updated_time).days\<close> is the floor of the difference in
  days; text that is no ISO time takes the \<open>except\<close> branch.\<close>

definition calculate_recency_score :: "int \<Rightarrow> int option \<Rightarrow> real" where
  "calculate_recency_score now updated =
     (case updated of
        None \<Rightarrow> 0.5
      | Some updated_time \<Rightarrow>
          (let days_diff = (now - updated_time) div 86400
           in if days_diff \<le> 30 then 1 else fexp (fdiv (real_of_int (- days_diff)) 60)))"

definition default_flags :: "(string \<times> string) list" where
  "default_flags =
    [(''analyze_security'', ''--persona-security --focus security --think --validate''),
     (''analyze_performance'', ''--persona-performance --think-hard --focus performance''),
     (''analyze_architecture'', ''--persona-architect --ultrathink --seq''),
     (''implement_ui'', ''--persona-frontend --magic --c7''),
     (''implement_api'', ''--persona-backend --seq --c7''),
     (''implement_auth'', ''--persona-security --persona-backend --validate''),
     (''improve_quality'', ''--persona-refactorer --loop --validate''),
     (''improve_performance'', ''--persona-performance --think-hard --play'')]"

definition get_pattern_base_flags :: "string \<Rightarrow> string" where
  "get_pattern_base_flags name = get_or (map_of default_flags name) ''--think --uc''"

text \<open>One entry of the cache, as \<open>_load_patterns_cache\<close> builds it from a row and the
  preferences of the user.\<close>

definition learned_pattern ::
  "(string \<times> real) list \<Rightarrow> string \<Rightarrow> (string \<times> real) list PatternSuccess \<Rightarrow> LearningPattern" where
  "learned_pattern user_prefs name pattern_data =
     \<lparr>pattern_id = name,
      lp_base_flags = get_pattern_base_flags name,
      lp_success_rate = success_rate pattern_data,
      usage_count = total_uses pattern_data,
      confidence_score = calculate_confidence_score (total_uses pattern_data) (success_rate pattern_data),
      context_weights = context_conditions pattern_data,
      lp_last_updated = last_updated pattern_data,
      user_preference_score = get_or (map_of user_prefs name) 1\<rparr>"



definition calculate_adaptive_score ::
  "int \<Rightarrow> LearningPattern \<Rightarrow> string \<Rightarrow> string \<Rightarrow> context_dict \<Rightarrow> RecommendationScore" where
  "calculate_adaptive_score now pattern command description ctx =
     (let success_score = fmul (lp_success_rate pattern) 40;
          preference_score = fmul (min (user_preference_score pattern) 2) 10;
          context_similarity = calculate_context_similarity (context_weights pattern) ctx;
          context_score = fmul context_similarity 20;
          conf_score = fmul (confidence_score pattern) 10;
          recency_score = fmul (calculate_recency_score now (lp_last_updated pattern)) 10;
          total_score =
            fadd (fadd (fadd (fadd success_score preference_score) context_score) conf_score)
              recency_score;
          confidence_percentage = min 95 (py_int total_score)
      in \<lparr>rs_pattern_id = pattern_id pattern,
          rs_flags = lp_base_flags pattern,
          score = total_score,
          rs_confidence = confidence_percentage,
          rs_reasoning =
            [SuccessRateNote (lp_success_rate pattern), PreferenceNote (user_preference_score pattern),
             ContextNote context_similarity, ConfidenceNote (confidence_score pattern),
             RecencyNote (fdiv recency_score 10)],
          learning_factors =
            [(''success_rate'', Factor (lp_success_rate pattern)),
             (''user_preference'', Factor (user_preference_score pattern)),
             (''context_similarity'', Factor context_similarity),
             (''confidence'', Factor (confidence_score pattern)),
             (''recency'', Factor (fdiv recency_score 10))]\<rparr>)"

text \<open>\<open>_adjust_flags_for_context\<close> of the engine.\<close>

definition engine_adjust_flags_for_context :: "string \<Rightarrow> context_dict \<Rightarrow> string" where
  "engine_adjust_flags_for_context bf ctx =
     (let project_size = get_or (cd_project_size ctx) ''small'';
          files = get_or (cd_file_count ctx) 0;
          f1 = (if (project_size = ''large'' \<or> project_size = ''very_large'' \<or> files > 50)
                   \<and> \<not> sublist ''--delegate'' bf
                then bf @ '' --delegate'' else bf);
          f2 = (if (project_size = ''very_large'' \<or> files > 100) \<and> \<not> sublist ''--uc'' f1
                then f1 @ '' --uc'' else f1);
          f3 = (if ''python'' \<in> set (get_or (cd_languages ctx) []) \<and> \<not> sublist ''--validate'' f2
                then f2 @ '' --validate'' else f2);
          f4 = (if list_ex (\<lambda>fw. fw \<in> set (get_or (cd_frameworks ctx) [])) [''react'', ''vue'', ''angular'']
                   \<and> \<not> sublist ''--magic'' f3
                then f3 @ '' --magic'' else f3)
      in strip f4)"




text \<open>\<open>_update_pattern_weights\<close>, by which \<open>update_learning_from_feedback\<close> changes an entry of
  the cache: the success rate moves by \<open>learning_weight * learning_rate\<close> within [0, 1] and the
  time of the update is set; \<open>confidence_score\<close> is not written. The store is updated in a
  \<open>try\<close> whose \<open>except\<close> passes: \<open>context\<close> is \<open>None\<close> when the text of the interaction's
  context is no JSON, and an error of the store is dropped. \<open>now_db\<close> is the clock as the store
  reads it.\<close>

definition learning_rate :: real where
  "learning_rate = round64 0.1"

definition update_pattern_weights ::
  "int \<Rightarrow> int \<Rightarrow> AdaptiveLearningEngine \<Rightarrow> (string \<times> real) list LearningStorage \<Rightarrow> string \<Rightarrow> real
     \<Rightarrow> (string \<times> real) list option
     \<Rightarrow> AdaptiveLearningEngine \<times> (string \<times> real) list LearningStorage" where
  "update_pattern_weights now now_db eng st name learning_weight context =
     (case map_of (pattern_cache eng) name of
        None \<Rightarrow> (eng, st)
      | Some pattern \<Rightarrow>
          (let adjustment = fmul learning_weight learning_rate;
               new_success_rate = max 0 (min 1 (fadd (lp_success_rate pattern) adjustment));
               eng' = eng\<lparr>pattern_cache :=
                        AList.update name
                          (pattern\<lparr>lp_success_rate := new_success_rate, lp_last_updated := Some now\<rparr>)
                          (pattern_cache eng)\<rparr>
           in case context of
                None \<Rightarrow> (eng', st)
              | Some c \<Rightarrow>
                  (case update_pattern_success now_db st name (learning_weight > 0) c of
                     Inl e \<Rightarrow> (eng', st)
                   | Inr st' \<Rightarrow> (eng', st'))))"






section \<open>The feedback processor: \<open>feedback_processor.py\<close>\<close>

text \<open>
  The names the module binds at its top level: those of its \<open>import\<close> statements, its classes
  and its two definitions at the end. Reading a global name that is neither among them nor a
  builtin raises \<open>NameError\<close>; \<open>os\<close> is no builtin.
\<close>

definition module_globals :: "string list" where
  "module_globals =
     [''json'', ''time'', ''datetime'', ''timedelta'', ''Dict'', ''List'', ''Optional'', ''Any'', ''Tuple'',
      ''dataclass'', ''asdict'', ''Enum'', ''defaultdict'', ''LearningStorage'', ''FeedbackRecord'',
      ''get_learning_storage'', ''PersonalizedAdaptiveRecommender'', ''get_personalized_recommender'',
      ''FeedbackType'', ''ProcessedFeedback'', ''FeedbackAnalysis'', ''FeedbackProcessor'',
      ''_feedback_processor_instance'', ''get_feedback_processor'']"

definition load_global :: "string \<Rightarrow> error + unit" where
  "load_global name = (if name \<in> set module_globals then Inr () else Inl (NameError name))"

text \<open>\<open>str(n)\<close> of an integer, and \<open>s.split()\<close>.\<close>

function str_nat :: "nat \<Rightarrow> string" where
  "str_nat n = (if n < 10 then [char_of (48 + n)] else str_nat (n div 10) @ [char_of (48 + n mod 10)])"
  by pat_completeness auto
termination
  by (relation "measure (\<lambda>n. n)") auto

definition str_int :: "int \<Rightarrow> string" where
  "str_int i = (if i < 0 then CHR ''-'' # str_nat (nat (- i)) else str_nat (nat i))"

fun split_from :: "string \<Rightarrow> string \<Rightarrow> string list" where
  "split_from word [] = (if word = [] then [] else [word])"
| "split_from word (c # cs) =
     (if isspace c then (if word = [] then split_from [] cs else word # split_from [] cs)
      else split_from (word @ [c]) cs)"

definition split_str :: "string \<Rightarrow> string list" where
  "split_str s = split_from [] s"

datatype FeedbackType =
    IMPLICIT_SUCCESS
  | IMPLICIT_FAILURE
  | EXPLICIT_RATING
  | USER_CORRECTION
  | PERFORMANCE_FEEDBACK

definition feedback_type_value :: "FeedbackType \<Rightarrow> string" where
  "feedback_type_value t =
     (case t of
        IMPLICIT_SUCCESS \<Rightarrow> ''implicit_success''
      | IMPLICIT_FAILURE \<Rightarrow> ''implicit_failure''
      | EXPLICIT_RATING \<Rightarrow> ''explicit_rating''
      | USER_CORRECTION \<Rightarrow> ''user_correction''
      | PERFORMANCE_FEEDBACK \<Rightarrow> ''performance_feedback'')"

text \<open>The identifier of a processed feedback is an f-string over the interaction and
  \<open>int(time.time())\<close>; it is kept as the data it is formatted from. So are the printed lines.\<close>

datatype feedback_id =
    ImmediateId string int
  | ExplicitId string int
  | BatchId int int

datatype printed =
    PatternAdjustment string real
  | PersonalizationUpdate string string real
  | BatchUpdate string real nat

record ProcessedFeedback =
  pf_feedback_id :: feedback_id
  pf_feedback_type :: FeedbackType
  pf_learning_weight :: real
  pf_confidence_impact :: real
  pf_pattern_adjustments :: "(string \<times> real) list"
  pf_personalization_updates :: "(string \<times> (string \<times> real) list) list"
  pf_processing_timestamp :: int

text \<open>The parameters of a \<open>FeedbackProcessor\<close>.\<close>

definition implicit_feedback_threshold :: real where
  "implicit_feedback_threshold = 2"

definition confidence_adjustment_factor :: real where
  "confidence_adjustment_factor = round64 0.05"

definition feedback_weights :: "FeedbackType \<Rightarrow> real" where
  "feedback_weights t =
     (case t of
        IMPLICIT_SUCCESS \<Rightarrow> round64 0.3
      | IMPLICIT_FAILURE \<Rightarrow> round64 0.4
      | EXPLICIT_RATING \<Rightarrow> 1
      | USER_CORRECTION \<Rightarrow> round64 1.2
      | PERFORMANCE_FEEDBACK \<Rightarrow> round64 0.6)"

definition fsub :: "real \<Rightarrow> real \<Rightarrow> real" where
  "fsub a b = round64 (a - b)"

definition classify_implicit_feedback :: "bool \<Rightarrow> real \<Rightarrow> string option \<Rightarrow> FeedbackType" where
  "classify_implicit_feedback success execution_time error_details =
     (if success then
        (if execution_time < implicit_feedback_threshold then IMPLICIT_SUCCESS
         else PERFORMANCE_FEEDBACK)
      else IMPLICIT_FAILURE)"

definition calculate_learning_weight :: "FeedbackType \<Rightarrow> bool \<Rightarrow> real \<Rightarrow> real" where
  "calculate_learning_weight t success execution_time =
     (let base_weight = feedback_weights t;
          success_multiplier = (if success then 1 else round64 0.7);
          time_multiplier = (if execution_time < 5 then round64 1.2
                             else if execution_time > 60 then round64 0.8 else 1)
      in fmul (fmul base_weight success_multiplier) time_multiplier)"

definition calculate_confidence_impact :: "FeedbackType \<Rightarrow> bool \<Rightarrow> real \<Rightarrow> real" where
  "calculate_confidence_impact t success execution_time =
     (let base_impact = confidence_adjustment_factor
      in if t = IMPLICIT_SUCCESS then fmul base_impact 0.5
         else if t = IMPLICIT_FAILURE then fmul (- base_impact) (round64 0.8)
         else if t = PERFORMANCE_FEEDBACK then
           (if execution_time > 30 then fmul (- base_impact) (round64 0.3)
            else fmul base_impact (round64 0.2))
         else 0)"

text \<open>\<open>_determine_pattern_adjustments\<close> reads the interactions of the last day from the store;
  the query is not guarded.\<close>

definition flag_adjustment ::
  "bool \<Rightarrow> real \<Rightarrow> string \<Rightarrow> (string \<times> real) list \<Rightarrow> (string \<times> real) list" where
  "flag_adjustment success execution_time flag adjustments =
     (if prefix ''--persona-'' flag then
        (let persona = replace ''--persona-'' [] flag
         in if success then AList.update (''persona_'' @ persona @ ''_boost'') (round64 0.1) adjustments
            else AList.update (''persona_'' @ persona @ ''_penalty'') (- round64 0.05) adjustments)
      else if prefix ''--think'' flag then
        (let thinking_level = replace ''--'' [] flag
         in if execution_time > 60 then
              AList.update (thinking_level @ ''_performance_penalty'') (- round64 0.1) adjustments
            else if success \<and> execution_time < 30 then
              AList.update (thinking_level @ ''_performance_boost'') (round64 0.05) adjustments
            else adjustments)
      else adjustments)"

definition determine_pattern_adjustments ::
  "int \<Rightarrow> 'c LearningStorage \<Rightarrow> string \<Rightarrow> FeedbackType \<Rightarrow> bool \<Rightarrow> real
     \<Rightarrow> error + (string \<times> real) list" where
  "determine_pattern_adjustments now st interaction_id t success execution_time =
     (case get_user_interactions now st 1 None of
        Inl e \<Rightarrow> Inl e
      | Inr recent \<Rightarrow>
          (case find (\<lambda>interaction. str_int (i_id interaction) = interaction_id) recent of
             None \<Rightarrow> Inr []
           | Some target_interaction \<Rightarrow>
               Inr (fold (flag_adjustment success execution_time)
                      (split_str (i_recommended_flags target_interaction)) [])))"

definition prepare_personalization_updates ::
  "string \<Rightarrow> FeedbackType \<Rightarrow> bool \<Rightarrow> (string \<times> (string \<times> real) list) list" where
  "prepare_personalization_updates interaction_id t success =
     [(''preference_adjustments'',
         (if success then [(''success_reinforcement'', round64 0.1)]
          else [(''failure_adjustment'', - round64 0.05)])),
      (''confidence_updates'',
         (if t = IMPLICIT_SUCCESS then [(''implicit_success_boost'', round64 0.02)]
          else if t = IMPLICIT_FAILURE then [(''implicit_failure_penalty'', - round64 0.03)]
          else [])),
      (''pattern_reinforcements'', [])]"

definition success_to_rating :: "bool \<Rightarrow> real \<Rightarrow> int" where
  "success_to_rating success execution_time =
     (if \<not> success then 1
      else if execution_time < 10 then 5
      else if execution_time < 30 then 4
      else if execution_time < 60 then 3
      else 2)"

text \<open>\<open>_apply_immediate_updates\<close> prints a line for every adjustment and every update.\<close>

definition apply_immediate_updates ::
  "(string \<times> real) list \<Rightarrow> (string \<times> (string \<times> real) list) list \<Rightarrow> printed list" where
  "apply_immediate_updates adjustments updates =
     map (\<lambda>(adjustment_key, adjustment_value). PatternAdjustment adjustment_key adjustment_value)
       adjustments
     @ concat (map (\<lambda>(update_category, updates).
                      map (\<lambda>(update_key, update_value).
                             PersonalizationUpdate update_category update_key update_value) updates)
                 updates)"

text \<open>\<open>process_immediate_feedback\<close>. The arguments of \<open>FeedbackRecord(...)\<close> are evaluated in
  their order; the last one reads the global \<open>os\<close>. \<open>project_hash\<close> stands for the value of
  \<open>self.storage.get_project_hash(os.getcwd())\<close> where that is evaluated. The result is the
  processed feedback, the store and the printed lines.\<close>

definition process_immediate_feedback ::
  "int \<Rightarrow> string \<Rightarrow> 'c LearningStorage \<Rightarrow> string \<Rightarrow> bool \<Rightarrow> real \<Rightarrow> string option
     \<Rightarrow> error + ProcessedFeedback \<times> 'c LearningStorage \<times> printed list" where
  "process_immediate_feedback now project_hash st interaction_id success execution_time error_details =
     (let t = classify_implicit_feedback success execution_time error_details;
          learning_weight = calculate_learning_weight t success execution_time;
          confidence_impact = calculate_confidence_impact t success execution_time
      in case determine_pattern_adjustments now st interaction_id t success execution_time of
           Inl e \<Rightarrow> Inl e
         | Inr adjustments \<Rightarrow>
             (let updates = prepare_personalization_updates interaction_id t success;
                  rating = success_to_rating success execution_time
              in case load_global ''os'' of
                   Inl e \<Rightarrow> Inl e
                 | Inr u \<Rightarrow>
                     (case record_feedback st
                             \<lparr>f_timestamp = now, f_interaction_id = interaction_id,
                              f_feedback_type = feedback_type_value t, f_rating = Some rating,
                              f_success_indicator = success, f_user_correction = error_details,
                              f_user_id = user_id st, f_project_hash = project_hash\<rparr> of
                        Inl e \<Rightarrow> Inl e
                      | Inr st' \<Rightarrow>
                          Inr (\<lparr>pf_feedback_id = ImmediateId interaction_id now,
                                pf_feedback_type = t, pf_learning_weight = learning_weight,
                                pf_confidence_impact = confidence_impact,
                                pf_pattern_adjustments = adjustments,
                                pf_personalization_updates = updates,
                                pf_processing_timestamp = now\<rparr>,
                               st', apply_immediate_updates adjustments updates))))"

text \<open>\<open>process_explicit_feedback\<close>. \<open>if user_correction\<close> holds for a text that is not empty.\<close>

definition calculate_explicit_confidence_impact :: "int \<Rightarrow> string option \<Rightarrow> real" where
  "calculate_explicit_confidence_impact user_rating user_correction =
     (let rating_impact = fmul (real_of_int (user_rating - 3)) (round64 0.1);
          correction_penalty = (if user_correction \<noteq> None \<and> user_correction \<noteq> Some []
                                then - round64 0.15 else 0)
      in fadd rating_impact correction_penalty)"

definition process_explicit_pattern_adjustments ::
  "string \<Rightarrow> int \<Rightarrow> string option \<Rightarrow> (string \<times> real) list" where
  "process_explicit_pattern_adjustments interaction_id user_rating user_correction =
     (let a1 = (if user_rating \<ge> 4 then [(''explicit_positive_reinforcement'', round64 0.2)]
                else if user_rating \<le> 2 then [(''explicit_negative_adjustment'', - round64 0.3)]
                else [])
      in case user_correction of
           None \<Rightarrow> a1
         | Some correction \<Rightarrow>
             (if correction = [] then a1
              else
                (let a2 = AList.update ''user_correction_learning'' 0.5 a1
                 in if sublist ''--'' correction
                    then AList.update ''user_suggested_flags'' (round64 0.3) a2 else a2)))"

definition process_explicit_personalization_updates ::
  "string \<Rightarrow> int \<Rightarrow> string option \<Rightarrow> (string \<times> (string \<times> real) list) list" where
  "process_explicit_personalization_updates interaction_id user_rating user_correction =
     [(''preference_adjustments'',
         (if user_rating \<ge> 4 then [(''strong_positive'', round64 0.3)]
          else if user_rating \<le> 2 then [(''strong_negative'', - round64 0.2)]
          else [])),
      (''confidence_updates'', []),
      (''learning_signals'', [(''explicit_feedback_weight'', fdiv (real_of_int user_rating) 5)])]"

definition process_explicit_feedback ::
  "int \<Rightarrow> string \<Rightarrow> 'c LearningStorage \<Rightarrow> string \<Rightarrow> int \<Rightarrow> string option
     \<Rightarrow> error + ProcessedFeedback \<times> 'c LearningStorage \<times> printed list" where
  "process_explicit_feedback now project_hash st interaction_id user_rating user_correction =
     (let t = (if user_correction \<noteq> None \<and> user_correction \<noteq> Some []
               then USER_CORRECTION else EXPLICIT_RATING);
          learning_weight = fmul (feedback_weights t) (fdiv (real_of_int user_rating) 5);
          confidence_impact = calculate_explicit_confidence_impact user_rating user_correction;
          adjustments = process_explicit_pattern_adjustments interaction_id user_rating user_correction;
          updates = process_explicit_personalization_updates interaction_id user_rating user_correction
      in case load_global ''os'' of
           Inl e \<Rightarrow> Inl e
         | Inr u \<Rightarrow>
             (case record_feedback st
                     \<lparr>f_timestamp = now, f_interaction_id = interaction_id,
                      f_feedback_type = feedback_type_value t, f_rating = Some user_rating,
                      f_success_indicator = (user_rating \<ge> 3), f_user_correction = user_correction,
                      f_user_id = user_id st, f_project_hash = project_hash\<rparr> of
                Inl e \<Rightarrow> Inl e
              | Inr st' \<Rightarrow>
                  Inr (\<lparr>pf_feedback_id = ExplicitId interaction_id now,
                        pf_feedback_type = t, pf_learning_weight = learning_weight,
                        pf_confidence_impact = confidence_impact,
                        pf_pattern_adjustments = adjustments,
                        pf_personalization_updates = updates,
                        pf_processing_timestamp = now\<rparr>,
                       st', apply_immediate_updates adjustments updates)))"

text \<open>The batch. \<open>_is_feedback_processed\<close> answers \<open>False\<close> for every interaction; its comment
  says that the history of processing would have to be looked up.\<close>

definition is_feedback_processed :: "string \<Rightarrow> bool" where
  "is_feedback_processed interaction_id = False"

definition calculate_performance_score :: "bool \<Rightarrow> real \<Rightarrow> real" where
  "calculate_performance_score success execution_time =
     (let success_score = (if success then 1 else 0);
          time_score = (if execution_time > 0 then max 0 (min 1 (fdiv (fsub 30 execution_time) 30))
                        else 0.5)
      in fadd (fmul success_score (round64 0.7)) (fmul time_score (round64 0.3)))"

definition calculate_confidence_accuracy :: "bool \<Rightarrow> int \<Rightarrow> real" where
  "calculate_confidence_accuracy success conf =
     (let expected_success_prob = fdiv (real_of_int conf) 100;
          actual_success = (if success then 1 else 0)
      in fsub 1 \<bar>fsub expected_success_prob actual_success\<bar>)"

definition calculate_learning_value :: "UserInteraction \<Rightarrow> real" where
  "calculate_learning_value interaction =
     (let base_value = 0.5;
          success = i_success interaction;
          success_value = (if success then round64 0.3 else round64 0.4);
          execution_time = i_execution_time interaction;
          time_value = (if execution_time > 0 then round64 0.2 else 0);
          confidence_accuracy = calculate_confidence_accuracy success (i_confidence interaction);
          accuracy_value = fmul (round64 0.3) (fsub 1 confidence_accuracy)
      in fadd (fadd (fadd base_value success_value) time_value) accuracy_value)"

record batch_analysis =
  performance_score :: real
  confidence_accuracy :: real
  learning_value :: real

definition analyze_interaction_for_batch_processing :: "UserInteraction \<Rightarrow> batch_analysis option" where
  "analyze_interaction_for_batch_processing interaction =
     (if i_execution_time interaction = 0 then None
      else Some \<lparr>performance_score =
                   calculate_performance_score (i_success interaction) (i_execution_time interaction),
                 confidence_accuracy =
                   calculate_confidence_accuracy (i_success interaction) (i_confidence interaction),
                 learning_value = calculate_learning_value interaction\<rparr>)"

definition create_batch_processed_feedback ::
  "int \<Rightarrow> UserInteraction \<Rightarrow> batch_analysis \<Rightarrow> ProcessedFeedback" where
  "create_batch_processed_feedback now interaction analysis =
     (let confidence_impact = fmul (confidence_accuracy analysis) (round64 0.05)
      in \<lparr>pf_feedback_id = BatchId (i_id interaction) now,
          pf_feedback_type = PERFORMANCE_FEEDBACK,
          pf_learning_weight = learning_value analysis,
          pf_confidence_impact = confidence_impact,
          pf_pattern_adjustments =
            [(''batch_performance_adjustment'', fmul (performance_score analysis) (round64 0.1)),
             (''batch_confidence_adjustment'', confidence_impact)],
          pf_personalization_updates = [(''batch_learning'', [(''weight'', learning_value analysis)])],
          pf_processing_timestamp = now\<rparr>)"

text \<open>\<open>batch_updates\<close> is a \<open>defaultdict(list)\<close>: the values collected under each key, the keys in
  the order of their first use. \<open>_apply_batch_updates\<close> prints the average under each key and
  writes nothing.\<close>

definition collect_update ::
  "string \<times> real \<Rightarrow> (string \<times> real list) list \<Rightarrow> (string \<times> real list) list" where
  "collect_update kv batch_updates =
     AList.update (fst kv) (get_or (map_of batch_updates (fst kv)) [] @ [snd kv]) batch_updates"

definition apply_batch_updates :: "(string \<times> real list) list \<Rightarrow> printed list" where
  "apply_batch_updates batch_updates =
     concat (map (\<lambda>(update_key, values).
                    if values = [] then []
                    else [BatchUpdate update_key
                            (fdiv (fold (\<lambda>v total. fadd total v) values 0) (real (length values)))
                            (length values)])
               batch_updates)"

definition process_batch_feedback ::
  "int \<Rightarrow> 'c LearningStorage \<Rightarrow> int \<Rightarrow> error + ProcessedFeedback list \<times> printed list" where
  "process_batch_feedback now st days =
     (case get_user_interactions now st days None of
        Inl e \<Rightarrow> Inl e
      | Inr recent_interactions \<Rightarrow>
          (let (processed_feedbacks, batch_updates) =
                 fold (\<lambda>interaction (processed_feedbacks, batch_updates).
                         if \<not> is_feedback_processed (str_int (i_id interaction)) then
                           (case analyze_interaction_for_batch_processing interaction of
                              None \<Rightarrow> (processed_feedbacks, batch_updates)
                            | Some feedback_analysis \<Rightarrow>
                                (let processed_feedback =
                                       create_batch_processed_feedback now interaction feedback_analysis
                                 in (processed_feedbacks @ [processed_feedback],
                                     fold collect_update (pf_pattern_adjustments processed_feedback)
                                       batch_updates)))
                         else (processed_feedbacks, batch_updates))
                   recent_interactions ([], [])
           in Inr (processed_feedbacks, apply_batch_updates batch_updates)))"


section \<open>The cache: \<open>performance_optimizer.py\<close>\<close>

text \<open>
  The texts of \<open>reasoning\<close> are f-strings over the measured response time, a pattern name or
  the message of an exception; they are kept as that data. The measured time is a parameter
  \<open>elapsed\<close>, and so is \<open>str(hash(description))\<close>, which Python salts per process.
\<close>

datatype quick_reasoning =
    CachedNote real
  | ImmediateNote real
  | RecoveryNote string

datatype match_reasoning =
    QuickPattern string
  | CommandPattern string

record QuickRecommendation =
  qr_flags :: string
  qr_confidence :: int
  qr_reasoning :: quick_reasoning
  response_time_ms :: real
  is_enhanced :: bool
  qr_enhanced_flags :: "string option"
  qr_enhanced_confidence :: "int option"

text \<open>An entry of \<open>pattern_cache\<close>: a dictionary with the keys \<open>flags\<close>, \<open>confidence\<close> and
  \<open>timestamp\<close>, to which the enhancement adds four more.\<close>

record cache_entry =
  ce_flags :: string
  ce_confidence :: int
  ce_timestamp :: int
  ce_enhanced_flags :: "string option"
  ce_enhanced_confidence :: "int option"
  ce_enhancement_reasoning :: "string option"
  ce_enhanced :: "bool option"

record enhancement_task =
  task_user_input :: string
  task_context :: context_dict
  task_cache_key :: string
  task_timestamp :: int

record enhanced_result =
  enhanced_flags :: string
  enhanced_confidence :: int
  enhancement_reasoning :: string

record metrics =
  total_requests :: int
  cache_hits :: int
  average_response_time :: real
  quick_responses :: int
  enhanced_responses :: int

record PerformanceOptimizer =
  po_pattern_cache :: "(string \<times> cache_entry) list"
  po_metrics :: metrics
  background_queue :: "enhancement_task list"
  is_processing :: bool

definition po_cache_ttl :: int where
  "po_cache_ttl = 1800"

definition init_optimizer :: PerformanceOptimizer where
  "init_optimizer =
     \<lparr>po_pattern_cache = [],
      po_metrics = \<lparr>total_requests = 0, cache_hits = 0, average_response_time = 0,
                    quick_responses = 0, enhanced_responses = 0\<rparr>,
      background_queue = [], is_processing = False\<rparr>"

text \<open>\<open>_adjust_flags_for_context\<close> of the optimizer.\<close>

definition optimizer_adjust_flags_for_context :: "string \<Rightarrow> context_dict \<Rightarrow> string" where
  "optimizer_adjust_flags_for_context bf ctx =
     (let f1 = (if get_or (cd_complexity ctx) ''moderate'' = ''complex'' \<and> sublist ''--think'' bf
                   \<and> \<not> sublist ''--think-hard'' bf
                then replace ''--think'' ''--think-hard'' bf else bf)
      in if get_or (cd_file_count ctx) 0 > 50 \<and> \<not> sublist ''--delegate'' f1
         then f1 @ '' --delegate'' else f1)"

definition quick_patterns :: "(string \<times> string list \<times> string \<times> int) list" where
  "quick_patterns =
    [(''security'', [''security'', ko_security, ''vulnerability'', ko_vulnerability, ''audit''],
        ''--persona-security --focus security --validate --uc'', 95),
     (''performance'', [''performance'', ko_performance, ''optimize'', ko_optimize, ''bottleneck''],
        ''--persona-performance --think-hard --focus performance --uc'', 90),
     (''frontend'', [''react'', ''vue'', ''component'', ko_component, ''ui'', ''interface''],
        ''--persona-frontend --magic --c7 --uc'', 94),
     (''backend'', [''api'', ''server'', ko_server, ''backend'', ''database''],
        ''--persona-backend --seq --c7 --uc'', 92),
     (''architecture'', [''architecture'', ko_architecture, ''design'', ''pattern''],
        ''--persona-architect --ultrathink --seq --uc'', 95)]"

text \<open>\<open>_quick_pattern_match\<close>: the first pattern, in the order of the table, one of whose
  keywords is in the text; otherwise the flags of the command.\<close>

definition quick_pattern_match ::
  "string \<Rightarrow> string \<Rightarrow> context_dict \<Rightarrow> string \<times> int \<times> match_reasoning" where
  "quick_pattern_match command description ctx =
     (let text = lower (command @ '' '' @ description) in
      case find (\<lambda>(name, kws, fl, conf). list_ex (\<lambda>keyword. sublist keyword text) kws)
             quick_patterns of
        Some (name, kws, fl, conf) \<Rightarrow>
          (optimizer_adjust_flags_for_context fl ctx, conf, QuickPattern name)
      | None \<Rightarrow>
          (let (fl, conf) =
                 (if command = ''analyze'' then (''--persona-analyzer --think --uc'', 80)
                  else if command = ''implement'' then
                    (if prefix ''python'' (get_or (cd_project_type ctx) [])
                     then ''--persona-backend --c7 --uc'' else ''--persona-frontend --magic --uc'', 75)
                  else if command = ''improve'' then (''--persona-refactorer --loop --uc'', 85)
                  else (''--think --uc'', 60))
           in (optimizer_adjust_flags_for_context fl ctx, conf, CommandPattern command)))"

text \<open>\<open>_get_cached_recommendation\<close>: an entry younger than the TTL is returned, an older one is
  deleted.\<close>

definition get_cached_recommendation ::
  "int \<Rightarrow> (string \<times> cache_entry) list \<Rightarrow> string
     \<Rightarrow> cache_entry option \<times> (string \<times> cache_entry) list" where
  "get_cached_recommendation now cache cache_key =
     (case map_of cache cache_key of
        None \<Rightarrow> (None, cache)
      | Some cached \<Rightarrow>
          (if now - ce_timestamp cached < po_cache_ttl then (Some cached, cache)
           else (None, AList.delete cache_key cache)))"

text \<open>\<open>min(keys, key=timestamp)\<close>: the first key of the least timestamp.\<close>

fun oldest :: "string \<times> cache_entry \<Rightarrow> (string \<times> cache_entry) list \<Rightarrow> string" where
  "oldest best [] = fst best"
| "oldest best (x # xs) =
     oldest (if ce_timestamp (snd x) < ce_timestamp (snd best) then x else best) xs"

definition cache_recommendation ::
  "(string \<times> cache_entry) list \<Rightarrow> string \<Rightarrow> cache_entry \<Rightarrow> (string \<times> cache_entry) list" where
  "cache_recommendation cache cache_key recommendation =
     (let stored = AList.update cache_key recommendation cache in
      if length stored > 1000 then
        (case stored of
           [] \<Rightarrow> stored
         | x # xs \<Rightarrow> AList.delete (oldest x xs) stored)
      else stored)"

text \<open>\<open>_queue_background_enhancement\<close>: the task joins the queue, and the worker is started
  when none is running.\<close>

definition queue_background_enhancement ::
  "int \<Rightarrow> PerformanceOptimizer \<Rightarrow> string \<Rightarrow> context_dict \<Rightarrow> string \<Rightarrow> PerformanceOptimizer" where
  "queue_background_enhancement now opt user_input ctx cache_key =
     opt\<lparr>background_queue := background_queue opt @
            [\<lparr>task_user_input = user_input, task_context = ctx, task_cache_key = cache_key,
              task_timestamp = now\<rparr>],
         is_processing := True\<rparr>"

text \<open>\<open>get_quick_recommendation\<close>. Nothing in the body raises on values of these types, so the
  \<open>except\<close> branch, which answers \<open>--think --uc\<close> with confidence 60, is not entered.\<close>

text \<open>The key of an entry: \<open>f"{command}:{hash(description)}:{context.get('project_type', 'unknown')}"\<close>.\<close>

definition cache_key_of :: "(string \<Rightarrow> string) \<Rightarrow> string \<Rightarrow> string \<Rightarrow> context_dict \<Rightarrow> string" where
  "cache_key_of hash_str command description ctx =
     command @ '':'' @ hash_str description @ '':'' @ get_or (cd_project_type ctx) ''unknown''"

definition get_quick_recommendation ::
  "(string \<Rightarrow> string) \<Rightarrow> real \<Rightarrow> int \<Rightarrow> PerformanceOptimizer \<Rightarrow> string \<Rightarrow> string \<Rightarrow> string
     \<Rightarrow> context_dict \<Rightarrow> QuickRecommendation \<times> PerformanceOptimizer" where
  "get_quick_recommendation hash_str elapsed now opt user_input command description ctx =
     (let cache_key = cache_key_of hash_str command description ctx;
          (cached_result, cache1) = get_cached_recommendation now (po_pattern_cache opt) cache_key
      in case cached_result of
           Some cached \<Rightarrow>
             (\<lparr>qr_flags = ce_flags cached, qr_confidence = ce_confidence cached,
               qr_reasoning = CachedNote elapsed, response_time_ms = elapsed, is_enhanced = False,
               qr_enhanced_flags = None, qr_enhanced_confidence = None\<rparr>,
              opt\<lparr>po_pattern_cache := cache1,
                  po_metrics := (po_metrics opt)\<lparr>cache_hits := cache_hits (po_metrics opt) + 1\<rparr>\<rparr>)
         | None \<Rightarrow>
             (let (quick_flags, conf, why) = quick_pattern_match command description ctx;
                  opt1 = opt\<lparr>po_pattern_cache :=
                               cache_recommendation cache1 cache_key
                                 \<lparr>ce_flags = quick_flags, ce_confidence = conf, ce_timestamp = now,
                                  ce_enhanced_flags = None, ce_enhanced_confidence = None,
                                  ce_enhancement_reasoning = None, ce_enhanced = None\<rparr>,
                             po_metrics := (po_metrics opt)\<lparr>quick_responses :=
                                             quick_responses (po_metrics opt) + 1\<rparr>\<rparr>
              in (\<lparr>qr_flags = quick_flags, qr_confidence = conf,
                   qr_reasoning = ImmediateNote elapsed, response_time_ms = elapsed, is_enhanced = False,
                   qr_enhanced_flags = None, qr_enhanced_confidence = None\<rparr>,
                  queue_background_enhancement now opt1 user_input ctx cache_key)))"

text \<open>The worker. \<open>_process_learning_enhancement\<close> sleeps and returns a result; its message, in
  Korean, is kept as UTF-8.\<close>

definition enhancement_done :: string where
  "enhancement_done = [CHR 0xED, CHR 0x95, CHR 0x99, CHR 0xEC, CHR 0x8A, CHR 0xB5, CHR 0x20, CHR 0xEA, CHR 0xB8, CHR 0xB0,
     CHR 0xEB, CHR 0xB0, CHR 0x98, CHR 0x20, CHR 0xEA, CHR 0xB0, CHR 0x9C, CHR 0xEC, CHR 0x84, CHR 0xA0,
     CHR 0x20, CHR 0xEC, CHR 0x99, CHR 0x84, CHR 0xEB, CHR 0xA3, CHR 0x8C]"

definition process_learning_enhancement :: "enhancement_task \<Rightarrow> enhanced_result option" where
  "process_learning_enhancement task =
     Some \<lparr>enhanced_flags = get_or (cd_enhanced_flags (task_context task)) [],
           enhanced_confidence = 95, enhancement_reasoning = enhancement_done\<rparr>"

text \<open>\<open>_update_enhanced_cache\<close>: \<open>dict.update\<close> with the three keys of the result, then
  \<open>enhanced = True\<close>; an absent key is left absent.\<close>

definition update_enhanced_cache ::
  "(string \<times> cache_entry) list \<Rightarrow> string \<Rightarrow> enhanced_result \<Rightarrow> (string \<times> cache_entry) list" where
  "update_enhanced_cache cache cache_key result =
     (case map_of cache cache_key of
        None \<Rightarrow> cache
      | Some entry \<Rightarrow>
          AList.update cache_key
            (entry\<lparr>ce_enhanced_flags := Some (enhanced_flags result),
                   ce_enhanced_confidence := Some (enhanced_confidence result),
                   ce_enhancement_reasoning := Some (enhancement_reasoning result),
                   ce_enhanced := Some True\<rparr>) cache)"

text \<open>One turn of the loop of \<open>_background_processor\<close>: with an empty queue it sleeps, otherwise
  it takes the first task.\<close>

definition background_step :: "PerformanceOptimizer \<Rightarrow> PerformanceOptimizer" where
  "background_step opt =
     (case background_queue opt of
        [] \<Rightarrow> opt
      | task # rest \<Rightarrow>
          (case process_learning_enhancement task of
             None \<Rightarrow> opt\<lparr>background_queue := rest\<rparr>
           | Some result \<Rightarrow>
               opt\<lparr>background_queue := rest,
                   po_pattern_cache := update_enhanced_cache (po_pattern_cache opt) (task_cache_key task) result,
                   po_metrics := (po_metrics opt)\<lparr>enhanced_responses :=
                                   enhanced_responses (po_metrics opt) + 1\<rparr>\<rparr>))"

text \<open>What happens to an optimizer between two requests: turns of the worker's loop and
  other requests, in any order. \<open>hash_str\<close> is the hash of the interpreter, as text.\<close>

datatype event =
    Turn
  | Ask real int string string string context_dict

fun step :: "(string \<Rightarrow> string) \<Rightarrow> event \<Rightarrow> PerformanceOptimizer \<Rightarrow> PerformanceOptimizer" where
  "step hash_str Turn opt = background_step opt"
| "step hash_str (Ask elapsed now user_input command description ctx) opt =
     snd (get_quick_recommendation hash_str elapsed now opt user_input command description ctx)"

definition run :: "(string \<Rightarrow> string) \<Rightarrow> event list \<Rightarrow> PerformanceOptimizer \<Rightarrow> PerformanceOptimizer" where
  "run hash_str events opt = fold (step hash_str) events opt"

fun event_key :: "(string \<Rightarrow> string) \<Rightarrow> event \<Rightarrow> string option" where
  "event_key hash_str Turn = None"
| "event_key hash_str (Ask elapsed now user_input command description ctx) =
     Some (cache_key_of hash_str command description ctx)"

section \<open>Auxiliary notions for the proofs\<close>

text \<open>The shape shared by the guarded additions of a flag: \<open>if c and t not in x: x += ' ' + t\<close>.\<close>

definition add_flag :: "bool \<Rightarrow> string \<Rightarrow> string \<Rightarrow> string" where
  "add_flag c t x = (if c \<and> \<not> sublist t x then x @ '' '' @ t else x)"

text \<open>What a cache hit reads of an entry: the keys \<open>flags\<close>, \<open>confidence\<close> and \<open>timestamp\<close>.\<close>

definition stored_answer :: "cache_entry \<Rightarrow> string \<times> int \<times> int" where
  "stored_answer e = (ce_flags e, ce_confidence e, ce_timestamp e)"


section \<open>Concrete inputs\<close>

text \<open>A store with one interaction and one pattern row, two successes in three uses.\<close>

definition example_row :: "unit PatternSuccess" where
  "example_row =
     \<lparr>pattern_name = ''analyze_security'', total_uses = 3, successful_uses = 2, success_rate = 2 / 3,
      last_updated = Some 0, context_conditions = ()\<rparr>"

definition example_interaction :: UserInteraction where
  "example_interaction =
     \<lparr>i_id = 1, i_timestamp = 900, i_user_input = ''/sc:analyze find security vulnerabilities'',
      i_command = ''analyze'', i_description = ''find security vulnerabilities'',
      i_recommended_flags = ''--persona-security --focus security --think-hard --validate --uc'',
      i_actual_flags = ''--persona-security --focus security --think-hard --validate --uc'',
      i_project_context = ''{}'', i_success = True, i_execution_time = 3 / 2, i_confidence = 80,
      i_reasoning = ''analyze_security'', i_user_id = ''u'', i_project_hash = ''p''\<rparr>"

definition example_tables :: "unit tables" where
  "example_tables =
     \<lparr>interactions = [example_interaction], feedback = [], pattern_success = [example_row],
      user_preferences = []\<rparr>"

definition example_storage :: "unit LearningStorage" where
  "example_storage = \<lparr>db = Readable example_tables, user_id = ''u''\<rparr>"

text \<open>A context without any key, and a pattern row with 19 successes in 32 uses.\<close>

definition empty_context :: context_dict where
  "empty_context =
     \<lparr>cd_project_size = None, cd_file_count = None, cd_languages = None, cd_frameworks = None,
      cd_complexity = None, cd_project_type = None, cd_enhanced_flags = None\<rparr>"


text \<open>A store for the engine: one pattern, 20 successes in 20 uses, last updated at time 0.\<close>

definition engine_row :: "(string \<times> real) list PatternSuccess" where
  "engine_row =
     \<lparr>pattern_name = ''analyze_security'', total_uses = 20, successful_uses = 20, success_rate = 1,
      last_updated = Some 0, context_conditions = []\<rparr>"

definition engine_storage :: "(string \<times> real) list LearningStorage" where
  "engine_storage =
     \<lparr>db = Readable \<lparr>interactions = [], feedback = [], pattern_success = [engine_row],
                      user_preferences = []\<rparr>,
      user_id = ''u''\<rparr>"

definition engine_pattern :: LearningPattern where
  "engine_pattern = learned_pattern [] ''analyze_security'' engine_row"

text \<open>A small project of no special type, for the preprocessor.\<close>

definition plain_project :: ProjectContext where
  "plain_project =
     \<lparr>project_type = ''general'', domain = ''general'', complexity = ''simple'', file_count = 0,
      framework = None, language = None\<rparr>"

text \<open>Two requests for the same command; between them the worker takes a turn, a request of
  another command is answered, and the worker takes another turn. The hash of a description
  is the interpreter's; here every description hashes to \<open>0\<close>.\<close>

definition example_hash :: "string \<Rightarrow> string" where
  "example_hash description = ''0''"

definition first_call :: "QuickRecommendation \<times> PerformanceOptimizer" where
  "first_call = get_quick_recommendation example_hash 1 1000 init_optimizer
     ''/sc:analyze security audit'' ''analyze'' ''security audit'' empty_context"

definition between_events :: "event list" where
  "between_events =
     [Turn, Ask 1 1200 ''/sc:implement login form'' ''implement'' ''login form'' empty_context, Turn]"

definition second_call :: "QuickRecommendation \<times> PerformanceOptimizer" where
  "second_call = get_quick_recommendation example_hash 2 1500 (run example_hash between_events (snd first_call))
     ''/sc:analyze security audit'' ''analyze'' ''security audit'' empty_context"

text \<open>A row whose rate 0.59 is no binary fraction, and the preference 1.05 of its user.\<close>

definition rounded_row :: "(string \<times> real) list PatternSuccess" where
  "rounded_row =
     \<lparr>pattern_name = ''analyze_security'', total_uses = 100, successful_uses = 59,
      success_rate = round64 0.59, last_updated = Some 0, context_conditions = []\<rparr>"

definition rounded_pattern :: LearningPattern where
  "rounded_pattern =
     learned_pattern [(''analyze_security'', round64 1.05)] ''analyze_security'' rounded_row"

text \<open>The engine that has loaded \<open>engine_storage\<close> at time 1000, and the same engine and store
  after a feedback of learning weight -1 for its pattern at time 1100.\<close>

definition loaded_engine :: AdaptiveLearningEngine where
  "loaded_engine = \<lparr>pattern_cache = [(''analyze_security'', engine_pattern)], cache_timestamp = 1000\<rparr>"


definition weighted_storage :: "(string \<times> real) list LearningStorage" where
  "weighted_storage =
     snd (update_pattern_weights 1100 1100 loaded_engine engine_storage ''analyze_security'' (- 1) (Some []))"


text \<open>Two runs of the batch over the last seven days of \<open>example_storage\<close>, and what each of
  them is to hand to \<open>_apply_batch_updates\<close> and to print.\<close>

definition first_run :: "error + ProcessedFeedback list \<times> printed list" where
  "first_run = process_batch_feedback 1000 example_storage 7"

definition batch_adjustments :: "(string \<times> real) list" where
  "batch_adjustments =
     [(''batch_performance_adjustment'', 7097673012735901 / 72057594037927936),
      (''batch_confidence_adjustment'', 1441151880758559 / 36028797018963968)]"

definition batch_printed :: "printed list" where
  "batch_printed =
     [BatchUpdate ''batch_performance_adjustment'' (7097673012735901 / 72057594037927936) 1,
      BatchUpdate ''batch_confidence_adjustment'' (1441151880758559 / 36028797018963968) 1]"

definition second_run :: "error + ProcessedFeedback list \<times> printed list" where
  "second_run = process_batch_feedback 2000 example_storage 7"


section \<open>Properties of the preprocessor\<close>

text \<open>
  Claim C1. For the input "analyze find security vulnerabilities" in a project of type
  \<open>python_backend\<close> and complexity \<open>complex\<close>, the flags hold a security persona and an
  elevated thinking depth and the confidence is at least 85.

  On the code the two flags are there, and the confidence is 80: of the five keywords of
  \<open>analyze_security\<close> only \<open>security\<close> occurs in the text (\<open>vulnerability\<close> is not a substring
  of \<open>vulnerabilities\<close>), the score is 1/5 plus the priority bonus 0.5, and
  \<open>int(95 * (0.5 + 0.7 * 0.5)) = int(80.75) = 80\<close>.
\<close>

theorem find_best_match_security_confidence:
  "find_best_match get_default_rules ''analyze'' ''find security vulnerabilities''
     \<lparr>project_type = ''python_backend'', domain = ''general'', complexity = ''complex'',
      file_count = 10, framework = Some ''asyncio'', language = Some ''python''\<rparr>
   = \<lparr>flags = ''--persona-security --focus security --think-hard --validate --uc'',
      confidence = 80,
      reason = PatternMatch ''analyze_security'' (7 / 10),
      mcp_servers = [''Sequential''], personas = [''security'']\<rparr>"
  by code_simp

text \<open>
  Claim C10. For every input whose stripped form does not start with \<open>/sc:\<close>, \<open>process\<close>
  returns the input unchanged.
\<close>

theorem process_identity_on_other_input:
  "\<not> prefix ''/sc:'' (strip user_input) \<Longrightarrow> process rules banner analysis user_input = user_input"
  by (simp add: process_def)

theorem process_identity_witness:
  "\<not> prefix ''/sc:'' (strip ''normal command'')
   \<and> process get_default_rules (\<lambda>r c. ''banner'') (Inl AnalyzerError) ''normal command'' = ''normal command''"
proof -
  have h: "\<not> prefix ''/sc:'' (strip ''normal command'')"
    by (simp add: strip_def isspace_def)
  show ?thesis
    using h process_identity_on_other_input [OF h, of get_default_rules "\<lambda>r c. ''banner''" "Inl AnalyzerError"]
    by simp
qed

section \<open>Properties of the store\<close>

subsection \<open>Pattern statistics\<close>


lemma stats_ok_after:
  assumes "stats_ok r"
  shows "stats_ok (r\<lparr>total_uses := total_uses r + 1,
            successful_uses := (if success then successful_uses r + 1 else successful_uses r),
            success_rate := real_of_int (if success then successful_uses r + 1 else successful_uses r)
                            / real_of_int (total_uses r + 1),
            last_updated := lu, context_conditions := c\<rparr>)"
  using assms by (auto simp: stats_ok_def)














subsection \<open>Reading interactions\<close>

text \<open>
  Claim C3. If the backing storage file is corrupted or unreadable, \<open>get_user_interactions\<close>
  returns an empty list rather than raising.

  The query of \<open>get_user_interactions\<close> stands in no \<open>try\<close>: on a store whose file has become
  unreadable the call raises the error of the database, for every user, every number of days
  and every project; it does not return the empty list. The first conjunct is the call
  \<open>get_user_interactions(days=30)\<close> of user \<open>u\<close> on such a store.
\<close>

theorem get_user_interactions_unreadable_raises:
  "get_user_interactions 1000 (\<lparr>db = Unreadable, user_id = ''u''\<rparr> :: unit LearningStorage) 30 None
     = Inl DatabaseError
   \<and> get_user_interactions now (st\<lparr>db := Unreadable\<rparr>) days project_hash = Inl DatabaseError
   \<and> get_user_interactions now (st\<lparr>db := Unreadable\<rparr>) days project_hash \<noteq> Inr []"
  by (simp add: get_user_interactions_def)

section \<open>Properties of the arithmetic\<close>

lemma pow2_powr: "pow2 e = 2 powr (real_of_int e)"
proof (cases "0 \<le> e")
  case True
  then have "2 powr (real_of_int e) = (2::real) ^ nat e"
    by (simp add: powr_realpow[symmetric])
  then show ?thesis using True by (simp add: pow2_def)
next
  case False
  then have "2 powr (real_of_int e) = 1 / (2::real) ^ nat (- e)"
    by (simp add: powr_realpow[symmetric] powr_minus_divide[symmetric])
  then show ?thesis using False by (simp add: pow2_def)
qed


lemma pow2_mono: "a \<le> b \<Longrightarrow> pow2 a \<le> pow2 b"
  by (simp add: pow2_powr)

lemma pow2_less_cancel: "pow2 a < pow2 b \<Longrightarrow> a < b"
  by (simp add: pow2_powr)


lemma exponent_from_bounds:
  "e \<le> exponent_from n e x \<and> exponent_from n e x \<le> e + int n"
proof (induction n arbitrary: e)
  case 0
  then show ?case by simp
next
  case (Suc n)
  show ?case using Suc.IH[of "e + 1"] by auto
qed

lemma exponent_from_lower:
  "e < exponent_from n e x \<Longrightarrow> pow2 (exponent_from n e x) \<le> x"
proof (induction n arbitrary: e)
  case 0
  then show ?case by simp
next
  case (Suc n)
  show ?case
  proof (cases "pow2 (e + 1) \<le> x")
    case True
    then have eq: "exponent_from (Suc n) e x = exponent_from n (e + 1) x" by simp
    show ?thesis
    proof (cases "e + 1 < exponent_from n (e + 1) x")
      case True
      then show ?thesis unfolding eq by (rule Suc.IH)
    next
      case False
      then have "exponent_from n (e + 1) x = e + 1"
        using exponent_from_bounds[of "e + 1" n x] by simp
      then show ?thesis unfolding eq using True by simp
    qed
  next
    case False
    then show ?thesis using Suc.prems by simp
  qed
qed

lemma exponent_from_upper:
  "exponent_from n e x < e + int n \<Longrightarrow> x < pow2 (exponent_from n e x + 1)"
proof (induction n arbitrary: e)
  case 0
  then show ?case by simp
next
  case (Suc n)
  show ?case
  proof (cases "pow2 (e + 1) \<le> x")
    case True
    then have eq: "exponent_from (Suc n) e x = exponent_from n (e + 1) x" by simp
    have "exponent_from n (e + 1) x < (e + 1) + int n" using Suc.prems unfolding eq by simp
    then show ?thesis unfolding eq by (rule Suc.IH)
  next
    case False
    then show ?thesis by simp
  qed
qed

lemma float_exponent_range: "- 1022 \<le> float_exponent x \<and> float_exponent x \<le> 1023"
  using exponent_from_bounds[of "- 1022" 2045 "\<bar>x\<bar>"] by (simp add: float_exponent_def)

lemma float_exponent_lower: "- 1022 < float_exponent x \<Longrightarrow> pow2 (float_exponent x) \<le> \<bar>x\<bar>"
  unfolding float_exponent_def by (rule exponent_from_lower)

lemma float_exponent_upper: "float_exponent x < 1023 \<Longrightarrow> \<bar>x\<bar> < pow2 (float_exponent x + 1)"
  unfolding float_exponent_def by (rule exponent_from_upper) simp

lemma float_exponent_eq:
  assumes "- 1022 \<le> e" and "e \<le> 1023" and "e = - 1022 \<or> pow2 e \<le> \<bar>x\<bar>" and "\<bar>x\<bar> < pow2 (e + 1)"
  shows "float_exponent x = e"
proof (rule ccontr)
  assume ne: "float_exponent x \<noteq> e"
  let ?f = "float_exponent x"
  have r: "- 1022 \<le> ?f" "?f \<le> 1023" using float_exponent_range[of x] by simp_all
  show False
  proof (cases "?f < e")
    case True
    then have "\<bar>x\<bar> < pow2 (?f + 1)" using assms(2) by (intro float_exponent_upper) simp
    also have "pow2 (?f + 1) \<le> pow2 e" using True by (intro pow2_mono) simp
    finally have "\<bar>x\<bar> < pow2 e" .
    moreover have "e \<noteq> - 1022" using True r by simp
    ultimately show False using assms(3) by simp
  next
    case False
    then have gt: "e < ?f" using ne by simp
    then have "pow2 ?f \<le> \<bar>x\<bar>" using assms(1) by (intro float_exponent_lower) simp
    moreover have "pow2 (e + 1) \<le> pow2 ?f" using gt by (intro pow2_mono) simp
    ultimately show False using assms(4) by simp
  qed
qed

lemma round64_at:
  assumes "- 1022 \<le> e" and "e \<le> 1023" and "e = - 1022 \<or> pow2 e \<le> \<bar>x\<bar>" and "\<bar>x\<bar> < pow2 (e + 1)"
  shows "round64 x = real_of_int (py_round (x / pow2 (e - 52))) * pow2 (e - 52)"
  using float_exponent_eq[OF assms] by (simp add: round64_def Let_def)








subsection \<open>The operations at the numbers of the examples\<close>

lemma float_op_1: "fdiv 32 20 = 3602879701896397 / 2251799813685248"
  unfolding fdiv_def by (subst round64_at[of "0"]) (simp_all add: pow2_def py_round_def)

lemma float_op_2: "fmul (19 / 32) 1 = 19 / 32"
  unfolding fmul_def by (subst round64_at[of "- 1"]) (simp_all add: pow2_def py_round_def)

lemma float_op_3: "fmul (19 / 32) 40 = 95 / 4"
  unfolding fmul_def by (subst round64_at[of "4"]) (simp_all add: pow2_def py_round_def)

lemma float_op_4: "fmul 1 10 = 10"
  unfolding fmul_def by (subst round64_at[of "3"]) (simp_all add: pow2_def py_round_def)

lemma float_op_5: "fmul (1 / 2) 20 = 10"
  unfolding fmul_def by (subst round64_at[of "3"]) (simp_all add: pow2_def py_round_def)

lemma float_op_6: "fmul (19 / 32) 10 = 95 / 16"
  unfolding fmul_def by (subst round64_at[of "2"]) (simp_all add: pow2_def py_round_def)

lemma float_op_7: "fdiv 10 10 = 1"
  unfolding fdiv_def by (subst round64_at[of "0"]) (simp_all add: pow2_def py_round_def)

lemma float_op_8: "fadd (95 / 4) 10 = 135 / 4"
  unfolding fadd_def by (subst round64_at[of "5"]) (simp_all add: pow2_def py_round_def)

lemma float_op_9: "fadd (135 / 4) 10 = 175 / 4"
  unfolding fadd_def by (subst round64_at[of "5"]) (simp_all add: pow2_def py_round_def)

lemma float_op_10: "fadd (175 / 4) (95 / 16) = 795 / 16"
  unfolding fadd_def by (subst round64_at[of "5"]) (simp_all add: pow2_def py_round_def)

lemma float_op_11: "fadd (795 / 16) 10 = 955 / 16"
  unfolding fadd_def by (subst round64_at[of "5"]) (simp_all add: pow2_def py_round_def)

lemma float_op_12: "fdiv 20 20 = 1"
  unfolding fdiv_def by (subst round64_at[of "0"]) (simp_all add: pow2_def py_round_def)

lemma float_op_13: "fmul 1 1 = 1"
  unfolding fmul_def by (subst round64_at[of "0"]) (simp_all add: pow2_def py_round_def)

lemma float_op_14: "fmul 1 40 = 40"
  unfolding fmul_def by (subst round64_at[of "5"]) (simp_all add: pow2_def py_round_def)

lemma float_op_15: "fadd 40 10 = 50"
  unfolding fadd_def by (subst round64_at[of "5"]) (simp_all add: pow2_def py_round_def)

lemma float_op_16: "fadd 50 10 = 60"
  unfolding fadd_def by (subst round64_at[of "5"]) (simp_all add: pow2_def py_round_def)

lemma float_op_17: "fadd 60 10 = 70"
  unfolding fadd_def by (subst round64_at[of "6"]) (simp_all add: pow2_def py_round_def)

lemma float_op_18: "fadd 70 10 = 80"
  unfolding fadd_def by (subst round64_at[of "6"]) (simp_all add: pow2_def py_round_def)

lemma float_op_19: "fdiv (- 31) 60 = - (4653719614949513 / 9007199254740992)"
  unfolding fdiv_def by (subst round64_at[of "- 1"]) (simp_all add: pow2_def py_round_def)

lemma float_op_20: "round64 (3 / 4) = 3 / 4"
  by (subst round64_at[of "- 1"]) (simp_all add: pow2_def py_round_def)

lemma float_op_21: "round64 (15 / 2) = 15 / 2"
  by (subst round64_at[of "2"]) (simp_all add: pow2_def py_round_def)

lemma float_op_22: "round64 (155 / 2) = 155 / 2"
  by (subst round64_at[of "6"]) (simp_all add: pow2_def py_round_def)

lemma float_op_23: "round64 0 = 0"
  by (subst round64_at[of "- 1022"]) (simp_all add: pow2_def py_round_def)

lemma float_op_24: "round64 (59 / 100) = 5314247560297185 / 9007199254740992"
  by (subst round64_at[of "- 1"]) (simp_all add: pow2_def py_round_def)

lemma float_op_25: "round64 (21 / 20) = 4728779608739021 / 4503599627370496"
  by (subst round64_at[of "0"]) (simp_all add: pow2_def py_round_def)

lemma float_op_26: "fdiv 100 20 = 5"
  unfolding fdiv_def by (subst round64_at[of "2"]) (simp_all add: pow2_def py_round_def)

lemma float_op_27: "fmul (5314247560297185 / 9007199254740992) 1 = 5314247560297185 / 9007199254740992"
  unfolding fmul_def by (subst round64_at[of "- 1"]) (simp_all add: pow2_def py_round_def)

lemma float_op_28: "fmul (5314247560297185 / 9007199254740992) 40 = 6642809450371481 / 281474976710656"
  unfolding fmul_def by (subst round64_at[of "4"]) (simp_all add: pow2_def py_round_def)

lemma float_op_29: "fmul (4728779608739021 / 4503599627370496) 10 = 21 / 2"
  unfolding fmul_def by (subst round64_at[of "3"]) (simp_all add: pow2_def py_round_def)

lemma float_op_30: "fmul (5314247560297185 / 9007199254740992) 10 = 6642809450371481 / 1125899906842624"
  unfolding fmul_def by (subst round64_at[of "2"]) (simp_all add: pow2_def py_round_def)

lemma float_op_31: "fadd (6642809450371481 / 281474976710656) (21 / 2) = 1199787088229171 / 35184372088832"
  unfolding fadd_def by (subst round64_at[of "5"]) (simp_all add: pow2_def py_round_def)

lemma float_op_32: "fadd (1199787088229171 / 35184372088832) 10 = 1551630809117491 / 35184372088832"
  unfolding fadd_def by (subst round64_at[of "5"]) (simp_all add: pow2_def py_round_def)

lemma float_op_33: "fadd (1551630809117491 / 35184372088832) (6642809450371481 / 1125899906842624) = 7036874417766399 / 140737488355328"
  unfolding fadd_def by (subst round64_at[of "5"]) (simp_all add: pow2_def py_round_def)

lemma float_op_34: "fadd (7036874417766399 / 140737488355328) 10 = 8444249301319679 / 140737488355328"
  unfolding fadd_def by (subst round64_at[of "5"]) (simp_all add: pow2_def py_round_def)

lemma float_op_35: "round64 (1 / 10) = 3602879701896397 / 36028797018963968"
  by (subst round64_at[of "- 4"]) (simp_all add: pow2_def py_round_def)

lemma float_op_36: "fmul (- 1) (3602879701896397 / 36028797018963968) = - (3602879701896397 / 36028797018963968)"
  unfolding fmul_def by (subst round64_at[of "- 4"]) (simp_all add: pow2_def py_round_def)

lemma float_op_37: "fadd 1 (- (3602879701896397 / 36028797018963968)) = 8106479329266893 / 9007199254740992"
  unfolding fadd_def by (subst round64_at[of "- 1"]) (simp_all add: pow2_def py_round_def)

lemma float_op_38: "fmul (8106479329266893 / 9007199254740992) 40 = 36"
  unfolding fmul_def by (subst round64_at[of "5"]) (simp_all add: pow2_def py_round_def)

lemma float_op_39: "fadd 36 10 = 46"
  unfolding fadd_def by (subst round64_at[of "5"]) (simp_all add: pow2_def py_round_def)

lemma float_op_40: "fadd 46 10 = 56"
  unfolding fadd_def by (subst round64_at[of "5"]) (simp_all add: pow2_def py_round_def)

lemma float_op_41: "fadd 56 10 = 66"
  unfolding fadd_def by (subst round64_at[of "6"]) (simp_all add: pow2_def py_round_def)

lemma float_op_42: "fadd 66 10 = 76"
  unfolding fadd_def by (subst round64_at[of "6"]) (simp_all add: pow2_def py_round_def)

lemma float_op_43: "fmul (8106479329266893 / 9007199254740992) 1 = 8106479329266893 / 9007199254740992"
  unfolding fmul_def by (subst round64_at[of "- 1"]) (simp_all add: pow2_def py_round_def)

lemma float_op_44: "fmul (8106479329266893 / 9007199254740992) 10 = 9"
  unfolding fmul_def by (subst round64_at[of "3"]) (simp_all add: pow2_def py_round_def)

lemma float_op_45: "fadd 56 9 = 65"
  unfolding fadd_def by (subst round64_at[of "6"]) (simp_all add: pow2_def py_round_def)

lemma float_op_46: "fadd 65 10 = 75"
  unfolding fadd_def by (subst round64_at[of "6"]) (simp_all add: pow2_def py_round_def)

lemmas float_ops =
  float_op_1 float_op_2 float_op_3 float_op_4 float_op_5 float_op_6
  float_op_7 float_op_8 float_op_9 float_op_10 float_op_11 float_op_12
  float_op_13 float_op_14 float_op_15 float_op_16 float_op_17 float_op_18
  float_op_19 float_op_20 float_op_21 float_op_22 float_op_23 float_op_24
  float_op_25 float_op_26 float_op_27 float_op_28 float_op_29 float_op_30
  float_op_31 float_op_32 float_op_33 float_op_34 float_op_35 float_op_36
  float_op_37 float_op_38 float_op_39 float_op_40 float_op_41 float_op_42
  float_op_43 float_op_44 float_op_45 float_op_46

section \<open>Properties of the engine\<close>

subsection \<open>The score and the confidence\<close>




text \<open>Every operation rounds: the rate 0.59 with the preference 1.05, whose terms add up to 60
  in exact arithmetic, scores 59.99999999999999 and gets confidence 59.\<close>

lemma rounded_pattern_score:
  "score (calculate_adaptive_score 1000 rounded_pattern ''analyze'' ''find issues'' empty_context)
     = 8444249301319679 / 140737488355328
   \<and> rs_confidence (calculate_adaptive_score 1000 rounded_pattern ''analyze'' ''find issues'' empty_context)
     = 59"
  by (simp add: calculate_adaptive_score_def rounded_pattern_def learned_pattern_def rounded_row_def
      empty_context_def calculate_context_similarity_def calculate_recency_score_def
      calculate_confidence_score_def get_or_def Let_def py_int_def float_ops)









subsection \<open>The clock\<close>






















section \<open>Properties of the context adjustments\<close>

subsection \<open>Substrings under stripping, appending and replacing\<close>

lemma add_flag_has: "c \<Longrightarrow> sublist t (add_flag c t x)"
proof -
  have "sublist t ((x @ '' '') @ t)" by (rule sublist_append_leftI)
  then show "c \<Longrightarrow> sublist t (add_flag c t x)" by (simp add: add_flag_def)
qed

lemma add_flag_keeps: "sublist u x \<Longrightarrow> sublist u (add_flag c t x)"
  unfolding add_flag_def using sublist_order.order_trans[OF _ sublist_append_rightI] by auto

lemma add_flag_id: "(c \<Longrightarrow> sublist t x) \<Longrightarrow> add_flag c t x = x"
  by (auto simp: add_flag_def)

lemma sublist_dropWhile_iff:
  assumes "t \<noteq> []" "\<not> P (hd t)"
  shows "sublist t (dropWhile P s) = sublist t s"
proof (induction s)
  case Nil
  then show ?case by simp
next
  case (Cons c cs)
  show ?case
  proof (cases "P c")
    case True
    have "\<not> prefix t (c # cs)"
      using assms True by (cases t) auto
    then show ?thesis using True Cons by (simp add: sublist_Cons_right)
  next
    case False
    then show ?thesis by simp
  qed
qed

lemma sublist_strip:
  assumes "t \<noteq> []" "\<not> isspace (hd t)" "\<not> isspace (last t)"
  shows "sublist t (strip s) = sublist t s"
proof -
  have r: "rev t \<noteq> []" "\<not> isspace (hd (rev t))"
    using assms by (simp_all add: hd_rev)
  have "sublist t (strip s) = sublist (rev t) (dropWhile isspace (rev (dropWhile isspace s)))"
    by (simp add: strip_def sublist_rev_right)
  also have "\<dots> = sublist (rev t) (rev (dropWhile isspace s))"
    using r by (rule sublist_dropWhile_iff[of "rev t" isspace])
  also have "\<dots> = sublist t (dropWhile isspace s)" by simp
  also have "\<dots> = sublist t s" using assms(1,2) by (rule sublist_dropWhile_iff[of t isspace])
  finally show ?thesis .
qed

lemma dropWhile_rev_dropWhile:
  "dropWhile P (rev (dropWhile P (rev (dropWhile P s)))) = rev (dropWhile P (rev (dropWhile P s)))"
proof -
  let ?d = "dropWhile P s"
  let ?w = "rev (dropWhile P (rev ?d))"
  show ?thesis
  proof (cases "?w")
    case Nil
    then show ?thesis by (simp only: Nil dropWhile.simps)
  next
    case (Cons c cs)
    have "suffix (dropWhile P (rev ?d)) (rev ?d)" by (rule suffix_dropWhile)
    then have "prefix ?w ?d" by (simp add: suffix_to_prefix)
    then obtain r where d: "?d = ?w @ r" by (auto simp: prefix_def)
    then have "?d = c # cs @ r" using Cons by simp
    moreover have "?d \<noteq> [] \<Longrightarrow> \<not> P (hd ?d)" by (rule hd_dropWhile)
    ultimately have "\<not> P c" by auto
    then show ?thesis using Cons by simp
  qed
qed

lemma strip_strip: "strip (strip s) = strip s"
proof -
  have "strip (strip s) = rev (dropWhile isspace (rev (dropWhile isspace (strip s))))"
    by (simp add: strip_def)
  also have "dropWhile isspace (strip s) = strip s"
    unfolding strip_def by (rule dropWhile_rev_dropWhile)
  also have "rev (dropWhile isspace (rev (strip s))) = strip s"
    by (simp add: strip_def dropWhile_idem)
  finally show ?thesis .
qed

lemma engine_adjust_as_add_flag:
  "engine_adjust_flags_for_context bf ctx =
     strip (add_flag (list_ex (\<lambda>fw. fw \<in> set (get_or (cd_frameworks ctx) [])) [''react'', ''vue'', ''angular''])
              ''--magic''
       (add_flag (''python'' \<in> set (get_or (cd_languages ctx) [])) ''--validate''
         (add_flag (get_or (cd_project_size ctx) ''small'' = ''very_large'' \<or> get_or (cd_file_count ctx) 0 > 100)
              ''--uc''
           (add_flag (get_or (cd_project_size ctx) ''small'' = ''large''
                        \<or> get_or (cd_project_size ctx) ''small'' = ''very_large''
                        \<or> get_or (cd_file_count ctx) 0 > 50) ''--delegate'' bf))))"
  by (simp only: engine_adjust_flags_for_context_def add_flag_def Let_def append.simps)

lemma strip_keeps_delegate: "sublist ''--delegate'' (strip s) = sublist ''--delegate'' s"
  by (rule sublist_strip) (simp_all add: isspace_def)

lemma strip_keeps_uc: "sublist ''--uc'' (strip s) = sublist ''--uc'' s"
  by (rule sublist_strip) (simp_all add: isspace_def)

lemma strip_keeps_validate: "sublist ''--validate'' (strip s) = sublist ''--validate'' s"
  by (rule sublist_strip) (simp_all add: isspace_def)

lemma strip_keeps_magic: "sublist ''--magic'' (strip s) = sublist ''--magic'' s"
  by (rule sublist_strip) (simp_all add: isspace_def)


lemma engine_adjust_idempotent:
  "engine_adjust_flags_for_context (engine_adjust_flags_for_context bf ctx) ctx
     = engine_adjust_flags_for_context bf ctx"
proof -
  define c1 where "c1 = (get_or (cd_project_size ctx) ''small'' = ''large''
               \<or> get_or (cd_project_size ctx) ''small'' = ''very_large''
               \<or> get_or (cd_file_count ctx) 0 > 50)"
  define c2 where "c2 = (get_or (cd_project_size ctx) ''small'' = ''very_large''
               \<or> get_or (cd_file_count ctx) 0 > 100)"
  define c3 where "c3 = (''python'' \<in> set (get_or (cd_languages ctx) []))"
  define c4 where "c4 = list_ex (\<lambda>fw. fw \<in> set (get_or (cd_frameworks ctx) [])) [''react'', ''vue'', ''angular'']"
  define y1 where "y1 = add_flag c1 ''--delegate'' bf"
  define y2 where "y2 = add_flag c2 ''--uc'' y1"
  define y3 where "y3 = add_flag c3 ''--validate'' y2"
  define y4 where "y4 = add_flag c4 ''--magic'' y3"
  define w where "w = strip y4"
  have shape: "engine_adjust_flags_for_context x ctx =
      strip (add_flag c4 ''--magic'' (add_flag c3 ''--validate'' (add_flag c2 ''--uc''
        (add_flag c1 ''--delegate'' x))))" for x
    unfolding c1_def c2_def c3_def c4_def by (rule engine_adjust_as_add_flag)
  have e: "engine_adjust_flags_for_context bf ctx = w"
    unfolding w_def y4_def y3_def y2_def y1_def by (rule shape)
  have s1: "sublist ''--delegate'' w" if c1
  proof -
    have "sublist ''--delegate'' y1" unfolding y1_def using that by (rule add_flag_has)
    then have "sublist ''--delegate'' y2" unfolding y2_def by (rule add_flag_keeps)
    then have "sublist ''--delegate'' y3" unfolding y3_def by (rule add_flag_keeps)
    then have "sublist ''--delegate'' y4" unfolding y4_def by (rule add_flag_keeps)
    then show ?thesis unfolding w_def by (simp only: strip_keeps_delegate)
  qed
  have s2: "sublist ''--uc'' w" if c2
  proof -
    have "sublist ''--uc'' y2" unfolding y2_def using that by (rule add_flag_has)
    then have "sublist ''--uc'' y3" unfolding y3_def by (rule add_flag_keeps)
    then have "sublist ''--uc'' y4" unfolding y4_def by (rule add_flag_keeps)
    then show ?thesis unfolding w_def by (simp only: strip_keeps_uc)
  qed
  have s3: "sublist ''--validate'' w" if c3
  proof -
    have "sublist ''--validate'' y3" unfolding y3_def using that by (rule add_flag_has)
    then have "sublist ''--validate'' y4" unfolding y4_def by (rule add_flag_keeps)
    then show ?thesis unfolding w_def by (simp only: strip_keeps_validate)
  qed
  have s4: "sublist ''--magic'' w" if c4
  proof -
    have "sublist ''--magic'' y4" unfolding y4_def using that by (rule add_flag_has)
    then show ?thesis unfolding w_def by (simp only: strip_keeps_magic)
  qed
  have a1: "add_flag c1 ''--delegate'' w = w" by (rule add_flag_id) (rule s1)
  have a2: "add_flag c2 ''--uc'' w = w" by (rule add_flag_id) (rule s2)
  have a3: "add_flag c3 ''--validate'' w = w" by (rule add_flag_id) (rule s3)
  have a4: "add_flag c4 ''--magic'' w = w" by (rule add_flag_id) (rule s4)
  have "engine_adjust_flags_for_context w ctx = strip w"
    by (simp only: shape[of w] a1 a2 a3 a4)
  also have "\<dots> = w" unfolding w_def by (rule strip_strip)
  finally show ?thesis by (simp only: e)
qed

lemma sublist_replace:
  assumes "old \<noteq> []"
  shows "sublist old s \<Longrightarrow> sublist new (replace old new s)"
proof (induction s rule: length_induct)
  case (1 s)
  show ?case
  proof (cases s)
    case Nil
    then show ?thesis using "1.prems" assms by simp
  next
    case (Cons c cs)
    show ?thesis
    proof (cases "prefix old (c # cs)")
      case True
      have "replace old new (c # cs) = new @ replace old new (drop (length old) (c # cs))"
        using assms True by simp
      then show ?thesis using Cons by simp
    next
      case False
      then have "sublist old cs" using "1.prems" Cons by (simp add: sublist_Cons_right)
      moreover have "length cs < length s" using Cons by simp
      ultimately have "sublist new (replace old new cs)" using "1.IH" by blast
      then have "sublist new (c # replace old new cs)" by (simp add: sublist_Cons_right)
      moreover have "replace old new (c # cs) = c # replace old new cs"
        using assms False by simp
      ultimately show ?thesis using Cons by simp
    qed
  qed
qed

lemma sublist_append_separator:
  assumes "z \<notin> set t"
  shows "sublist t (ys @ z # zs) = (sublist t ys \<or> sublist t zs)"
proof
  assume "sublist t (ys @ z # zs)"
  then consider "sublist t ys" | "sublist t (z # zs)"
    | xs1 xs2 where "t = xs1 @ xs2" "suffix xs1 ys" "prefix xs2 (z # zs)"
    by (auto simp: sublist_append)
  then show "sublist t ys \<or> sublist t zs"
  proof cases
    case 1
    then show ?thesis by simp
  next
    case 2
    then have "prefix t (z # zs) \<or> sublist t zs" by (simp add: sublist_Cons_right)
    moreover have "prefix t (z # zs) \<Longrightarrow> t = []"
      using assms by (cases t) auto
    ultimately show ?thesis by auto
  next
    case 3
    have "xs2 = []"
      using 3(1,3) assms by (cases xs2) auto
    then have "suffix t ys" using 3 by simp
    then show ?thesis by auto
  qed
next
  assume "sublist t ys \<or> sublist t zs"
  then show "sublist t (ys @ z # zs)"
  proof
    assume "sublist t ys"
    then show ?thesis
      using sublist_order.order_trans[OF _ sublist_append_rightI] by blast
  next
    assume "sublist t zs"
    then have "sublist t ((ys @ [z]) @ zs)"
      using sublist_order.order_trans[OF _ sublist_append_leftI] by blast
    then show ?thesis by simp
  qed
qed

lemma think_after_delegate:
  "sublist ''--think'' (x @ '' --delegate'') = sublist ''--think'' x"
proof -
  have "sublist ''--think'' (x @ CHR '' '' # ''--delegate'') = (sublist ''--think'' x \<or> sublist ''--think'' ''--delegate'')"
    by (rule sublist_append_separator) simp
  moreover have "\<not> sublist ''--think'' ''--delegate''" by (simp add: sublist_Cons_right)
  ultimately show ?thesis by simp
qed

lemma think_hard_after_delegate:
  "sublist ''--think-hard'' (x @ '' --delegate'') = sublist ''--think-hard'' x"
proof -
  have "sublist ''--think-hard'' (x @ CHR '' '' # ''--delegate'')
          = (sublist ''--think-hard'' x \<or> sublist ''--think-hard'' ''--delegate'')"
    by (rule sublist_append_separator) simp
  moreover have "\<not> sublist ''--think-hard'' ''--delegate''" by (simp add: sublist_Cons_right)
  ultimately show ?thesis by simp
qed

lemma optimizer_adjust_shape:
  "optimizer_adjust_flags_for_context bf ctx =
     add_flag (get_or (cd_file_count ctx) 0 > 50) ''--delegate''
       (if get_or (cd_complexity ctx) ''moderate'' = ''complex'' \<and> sublist ''--think'' bf
            \<and> \<not> sublist ''--think-hard'' bf
        then replace ''--think'' ''--think-hard'' bf else bf)"
  by (simp only: optimizer_adjust_flags_for_context_def add_flag_def Let_def append.simps)

lemma add_flag_delegate_think:
  "sublist ''--think'' (add_flag c ''--delegate'' x) = sublist ''--think'' x"
  using think_after_delegate[of x] by (simp add: add_flag_def)

lemma add_flag_delegate_think_hard:
  "sublist ''--think-hard'' (add_flag c ''--delegate'' x) = sublist ''--think-hard'' x"
  using think_hard_after_delegate[of x] by (simp add: add_flag_def)

lemma add_flag_twice: "add_flag c t (add_flag c t x) = add_flag c t x"
  by (rule add_flag_id) (rule add_flag_has)

lemma optimizer_adjust_idempotent:
  "optimizer_adjust_flags_for_context (optimizer_adjust_flags_for_context bf ctx) ctx
     = optimizer_adjust_flags_for_context bf ctx"
proof -
  define cx where "cx = (get_or (cd_complexity ctx) ''moderate'' = ''complex'')"
  define cf where "cf = (get_or (cd_file_count ctx) 0 > 50)"
  define z where "z = (if cx \<and> sublist ''--think'' bf \<and> \<not> sublist ''--think-hard'' bf
                        then replace ''--think'' ''--think-hard'' bf else bf)"
  define w where "w = add_flag cf ''--delegate'' z"
  have shape: "optimizer_adjust_flags_for_context x ctx =
      add_flag cf ''--delegate''
        (if cx \<and> sublist ''--think'' x \<and> \<not> sublist ''--think-hard'' x
         then replace ''--think'' ''--think-hard'' x else x)" for x
    unfolding cx_def cf_def by (rule optimizer_adjust_shape)
  have e: "optimizer_adjust_flags_for_context bf ctx = w"
    unfolding w_def z_def by (rule shape)
  have no_second: "\<not> (cx \<and> sublist ''--think'' w \<and> \<not> sublist ''--think-hard'' w)"
  proof (cases "cx \<and> sublist ''--think'' bf \<and> \<not> sublist ''--think-hard'' bf")
    case True
    then have "z = replace ''--think'' ''--think-hard'' bf" unfolding z_def by (rule if_P)
    moreover have "sublist ''--think-hard'' (replace ''--think'' ''--think-hard'' bf)"
      using True by (intro sublist_replace) simp_all
    ultimately have "sublist ''--think-hard'' z" by simp
    then have "sublist ''--think-hard'' w" unfolding w_def by (rule add_flag_keeps)
    then show ?thesis by simp
  next
    case False
    then have "z = bf" unfolding z_def by (rule if_not_P)
    then have "sublist ''--think'' w = sublist ''--think'' bf"
      and "sublist ''--think-hard'' w = sublist ''--think-hard'' bf"
      unfolding w_def by (simp_all only: add_flag_delegate_think add_flag_delegate_think_hard)
    then show ?thesis using False by simp
  qed
  have "optimizer_adjust_flags_for_context w ctx = add_flag cf ''--delegate'' w"
    using no_second by (simp only: shape[of w] if_False)
  also have "\<dots> = w" unfolding w_def by (rule add_flag_twice)
  finally show ?thesis by (simp only: e)
qed


text \<open>
  Claim C8. For every base flag string and every project context, applying the
  context-specific flag adjustments twice yields the same flag string as applying them once.

  Of the three adjustment functions the preprocessor's \<open>_apply_context_modifiers\<close> does not
  look at the flags before it appends \<open>--uc\<close>: a second application appends it again.
\<close>

theorem apply_context_modifiers_twice_counterexample:
  "apply_context_modifiers (apply_context_modifiers ''--think'' plain_project) plain_project
     = ''--think --uc --uc''
   \<and> apply_context_modifiers ''--think'' plain_project = ''--think --uc''
   \<and> apply_context_modifiers (apply_context_modifiers ''--think'' plain_project) plain_project
     \<noteq> apply_context_modifiers ''--think'' plain_project"
  by (simp add: apply_context_modifiers_def plain_project_def)

text \<open>
  Claim C8, amended. For every base flag string and every project context, the engine's and
  the optimizer's \<open>_adjust_flags_for_context\<close> yield, applied twice, exactly the flag string
  they yield applied once: every flag they add is guarded by a test that it is not there yet.
\<close>

theorem context_adjustments_idempotent:
  "engine_adjust_flags_for_context (engine_adjust_flags_for_context bf ctx) ctx
     = engine_adjust_flags_for_context bf ctx
   \<and> optimizer_adjust_flags_for_context (optimizer_adjust_flags_for_context bf ctx) ctx
     = optimizer_adjust_flags_for_context bf ctx"
  by (simp only: engine_adjust_idempotent optimizer_adjust_idempotent)


section \<open>Properties of the optimizer's cache\<close>

lemma update_enhanced_cache_answer:
  "map_option stored_answer (map_of (update_enhanced_cache cache k result) key)
     = map_option stored_answer (map_of cache key)"
  by (cases "map_of cache k")
     (auto simp: update_enhanced_cache_def update_conv' stored_answer_def)

lemma background_step_answer:
  "map_option stored_answer (map_of (po_pattern_cache (background_step opt)) key)
     = map_option stored_answer (map_of (po_pattern_cache opt) key)"
  by (cases "background_queue opt")
     (simp_all add: background_step_def process_learning_enhancement_def update_enhanced_cache_answer)

lemma background_steps_answer:
  "map_option stored_answer (map_of (po_pattern_cache ((background_step ^^ n) opt)) key)
     = map_option stored_answer (map_of (po_pattern_cache opt) key)"
  by (induction n) (simp_all add: background_step_answer)

lemma hit_entry:
  assumes "fst (get_cached_recommendation now cache key) \<noteq> None"
  shows "\<exists>e. map_of cache key = Some e \<and> get_cached_recommendation now cache key = (Some e, cache)"
  using assms by (auto simp: get_cached_recommendation_def split: option.splits if_splits)

lemma miss_cache:
  assumes "fst (get_cached_recommendation now cache key) = None"
  shows "get_cached_recommendation now cache key = (None, snd (get_cached_recommendation now cache key))"
  using assms by (cases "get_cached_recommendation now cache key") simp

lemma cache_recommendation_lookup:
  "map_of (cache_recommendation cache key e) key = Some e
   \<or> map_of (cache_recommendation cache key e) key = None"
proof -
  let ?stored = "AList.update key e cache"
  have st: "map_of ?stored key = Some e" by (simp add: update_conv')
  have del: "map_of (AList.delete k ?stored) key = Some e \<or> map_of (AList.delete k ?stored) key = None" for k
    using st by (simp add: delete_conv')
  have "cache_recommendation cache key e = ?stored
        \<or> (\<exists>k. cache_recommendation cache key e = AList.delete k ?stored)"
    by (cases ?stored) (auto simp: cache_recommendation_def Let_def)
  then show ?thesis
  proof
    assume "cache_recommendation cache key e = ?stored"
    then show ?thesis using st by simp
  next
    assume "\<exists>k. cache_recommendation cache key e = AList.delete k ?stored"
    then obtain k where "cache_recommendation cache key e = AList.delete k ?stored" by blast
    then show ?thesis using del[of k] by simp
  qed
qed

lemma first_call_stores:
  assumes "get_quick_recommendation h el now opt ui cmd desc ctx = (r, opt')"
  shows "map_of (po_pattern_cache opt') (cache_key_of h cmd desc ctx) = None
         \<or> (\<exists>e. map_of (po_pattern_cache opt') (cache_key_of h cmd desc ctx) = Some e
                 \<and> ce_flags e = qr_flags r \<and> ce_confidence e = qr_confidence r)"
proof (cases "fst (get_cached_recommendation now (po_pattern_cache opt) (cache_key_of h cmd desc ctx))")
  case (Some e0)
  then have "fst (get_cached_recommendation now (po_pattern_cache opt) (cache_key_of h cmd desc ctx)) \<noteq> None"
    by simp
  from hit_entry[OF this] Some
  have m: "map_of (po_pattern_cache opt) (cache_key_of h cmd desc ctx) = Some e0"
    and g: "get_cached_recommendation now (po_pattern_cache opt) (cache_key_of h cmd desc ctx)
              = (Some e0, po_pattern_cache opt)"
    by auto
  have "qr_flags r = ce_flags e0 \<and> qr_confidence r = ce_confidence e0
        \<and> po_pattern_cache opt' = po_pattern_cache opt"
    using assms g by (auto simp: get_quick_recommendation_def Let_def)
  then show ?thesis using m by simp
next
  case None
  obtain c1 where g: "get_cached_recommendation now (po_pattern_cache opt) (cache_key_of h cmd desc ctx)
              = (None, c1)"
    using miss_cache[OF None] by blast
  obtain fl conf why where q: "quick_pattern_match cmd desc ctx = (fl, conf, why)"
    by (cases "quick_pattern_match cmd desc ctx") auto
  let ?e = "\<lparr>ce_flags = fl, ce_confidence = conf, ce_timestamp = now,
              ce_enhanced_flags = None, ce_enhanced_confidence = None,
              ce_enhancement_reasoning = None, ce_enhanced = None\<rparr>"
  have r: "qr_flags r = fl \<and> qr_confidence r = conf
        \<and> po_pattern_cache opt' = cache_recommendation c1 (cache_key_of h cmd desc ctx) ?e"
    using assms g q
    by (auto simp: get_quick_recommendation_def Let_def queue_background_enhancement_def)
  show ?thesis
    using cache_recommendation_lookup[of c1 "cache_key_of h cmd desc ctx" ?e] r by auto
qed

lemma hit_answer:
  assumes "get_quick_recommendation h el now opt ui cmd desc ctx = (r, opt')"
    and "fst (get_cached_recommendation now (po_pattern_cache opt) (cache_key_of h cmd desc ctx)) \<noteq> None"
  shows "\<exists>e. map_of (po_pattern_cache opt) (cache_key_of h cmd desc ctx) = Some e
           \<and> qr_flags r = ce_flags e \<and> qr_confidence r = ce_confidence e
           \<and> now - ce_timestamp e < po_cache_ttl"
proof -
  from hit_entry[OF assms(2)] obtain e
    where m: "map_of (po_pattern_cache opt) (cache_key_of h cmd desc ctx) = Some e"
      and g: "get_cached_recommendation now (po_pattern_cache opt) (cache_key_of h cmd desc ctx)
                = (Some e, po_pattern_cache opt)"
    by blast
  have t: "now - ce_timestamp e < po_cache_ttl"
    using g m by (auto simp: get_cached_recommendation_def split: if_splits)
  have "qr_flags r = ce_flags e \<and> qr_confidence r = ce_confidence e"
    using assms(1) g by (auto simp: get_quick_recommendation_def Let_def)
  then show ?thesis using m t by blast
qed

lemma miss_answer:
  assumes "get_quick_recommendation h el now opt ui cmd desc ctx = (r, opt')"
    and "fst (get_cached_recommendation now (po_pattern_cache opt) (cache_key_of h cmd desc ctx)) = None"
  shows "qr_flags r = fst (quick_pattern_match cmd desc ctx)
         \<and> qr_confidence r = fst (snd (quick_pattern_match cmd desc ctx))"
proof -
  obtain c1 where g: "get_cached_recommendation now (po_pattern_cache opt) (cache_key_of h cmd desc ctx)
              = (None, c1)"
    using miss_cache[OF assms(2)] by blast
  obtain fl conf why where q: "quick_pattern_match cmd desc ctx = (fl, conf, why)"
    by (cases "quick_pattern_match cmd desc ctx") auto
  show ?thesis
    using assms(1) g q by (auto simp: get_quick_recommendation_def Let_def)
qed

lemma get_cached_other:
  assumes "k \<noteq> key"
  shows "map_of (snd (get_cached_recommendation now cache key)) k = map_of cache k"
  using assms by (auto simp: get_cached_recommendation_def delete_conv' split: option.splits)

lemma cache_recommendation_other:
  assumes "k \<noteq> key"
  shows "map_of (cache_recommendation cache key e) k = None
         \<or> map_of (cache_recommendation cache key e) k = map_of cache k"
proof -
  let ?stored = "AList.update key e cache"
  have st: "map_of ?stored k = map_of cache k" using assms by (simp add: update_conv')
  have del: "map_of (AList.delete k0 ?stored) k = None
             \<or> map_of (AList.delete k0 ?stored) k = map_of cache k" for k0
    using st by (simp add: delete_conv')
  have "cache_recommendation cache key e = ?stored
        \<or> (\<exists>k0. cache_recommendation cache key e = AList.delete k0 ?stored)"
    by (cases ?stored) (auto simp: cache_recommendation_def Let_def)
  then show ?thesis
  proof
    assume "cache_recommendation cache key e = ?stored"
    then show ?thesis using st by simp
  next
    assume "\<exists>k0. cache_recommendation cache key e = AList.delete k0 ?stored"
    then obtain k0 where "cache_recommendation cache key e = AList.delete k0 ?stored" by blast
    then show ?thesis using del[of k0] by simp
  qed
qed

lemma ask_other_key:
  assumes "k \<noteq> cache_key_of h cmd desc ctx"
  shows "map_of (po_pattern_cache (snd (get_quick_recommendation h el now opt ui cmd desc ctx))) k = None
       \<or> map_of (po_pattern_cache (snd (get_quick_recommendation h el now opt ui cmd desc ctx))) k
          = map_of (po_pattern_cache opt) k"
proof -
  let ?key = "cache_key_of h cmd desc ctx"
  obtain c0 c1 where g: "get_cached_recommendation now (po_pattern_cache opt) ?key = (c0, c1)"
    by (cases "get_cached_recommendation now (po_pattern_cache opt) ?key") auto
  have c1: "map_of c1 k = map_of (po_pattern_cache opt) k"
    using get_cached_other[OF assms, of now "po_pattern_cache opt"] g by simp
  show ?thesis
  proof (cases c0)
    case (Some e0)
    then have "po_pattern_cache (snd (get_quick_recommendation h el now opt ui cmd desc ctx)) = c1"
      using g by (simp add: get_quick_recommendation_def Let_def)
    then show ?thesis using c1 by simp
  next
    case None
    obtain fl conf why where q: "quick_pattern_match cmd desc ctx = (fl, conf, why)"
      by (cases "quick_pattern_match cmd desc ctx") auto
    let ?e = "\<lparr>ce_flags = fl, ce_confidence = conf, ce_timestamp = now,
              ce_enhanced_flags = None, ce_enhanced_confidence = None,
              ce_enhancement_reasoning = None, ce_enhanced = None\<rparr>"
    have "po_pattern_cache (snd (get_quick_recommendation h el now opt ui cmd desc ctx))
            = cache_recommendation c1 ?key ?e"
      using g None q by (simp add: get_quick_recommendation_def Let_def queue_background_enhancement_def)
    then show ?thesis using cache_recommendation_other[OF assms, of c1 ?e] c1 by auto
  qed
qed

lemma step_keeps_answer:
  assumes "event_key h ev \<noteq> Some k"
  shows "map_option stored_answer (map_of (po_pattern_cache (step h ev opt)) k) = None
       \<or> map_option stored_answer (map_of (po_pattern_cache (step h ev opt)) k)
          = map_option stored_answer (map_of (po_pattern_cache opt) k)"
proof (cases ev)
  case Turn
  then show ?thesis by (simp add: background_step_answer)
next
  case (Ask el now ui cmd desc ctx)
  then have "k \<noteq> cache_key_of h cmd desc ctx" using assms by auto
  from ask_other_key[OF this, of el now opt ui] show ?thesis using Ask by auto
qed

lemma run_keeps_answer:
  assumes "\<forall>ev \<in> set events. event_key h ev \<noteq> Some k"
  shows "map_option stored_answer (map_of (po_pattern_cache (run h events opt)) k) = None
       \<or> map_option stored_answer (map_of (po_pattern_cache (run h events opt)) k)
          = map_option stored_answer (map_of (po_pattern_cache opt) k)"
  using assms
proof (induction events arbitrary: opt)
  case Nil
  then show ?case by (simp add: run_def)
next
  case (Cons ev events)
  have r: "run h (ev # events) opt = run h events (step h ev opt)" by (simp add: run_def)
  have a: "\<forall>ev \<in> set events. event_key h ev \<noteq> Some k" using Cons.prems by simp
  have b: "event_key h ev \<noteq> Some k" using Cons.prems by simp
  from Cons.IH[OF a, of "step h ev opt"] step_keeps_answer[OF b, of opt]
  show ?case unfolding r by auto
qed

text \<open>
  Claim C9. Every cache hit within the 1800-second TTL returns flags and confidence identical
  to those stored by the original computation for that key, even after the background
  enhancement worker has updated the cache entry in place.

  A request is answered and stores its answer under its key. Then the worker takes turns and
  requests for other keys are answered, in any order and number. A later request for the key
  that hits the cache gets the flags and the confidence of the first answer, and those are
  the ones of \<open>_quick_pattern_match\<close> when the first request computed them. A hit is an entry
  younger than \<open>cache_ttl\<close>.
\<close>

theorem cache_hit_returns_stored_answer:
  assumes first: "get_quick_recommendation h el1 now1 opt0 ui1 cmd desc ctx = (r1, opt1)"
    and between: "\<forall>ev \<in> set events. event_key h ev \<noteq> Some (cache_key_of h cmd desc ctx)"
    and second: "get_quick_recommendation h el2 now2 (run h events opt1) ui2 cmd2 desc2 ctx2 = (r2, opt3)"
    and same_key: "cache_key_of h cmd2 desc2 ctx2 = cache_key_of h cmd desc ctx"
    and hit: "fst (get_cached_recommendation now2 (po_pattern_cache (run h events opt1))
                (cache_key_of h cmd desc ctx)) \<noteq> None"
  shows "qr_flags r2 = qr_flags r1 \<and> qr_confidence r2 = qr_confidence r1
       \<and> (fst (get_cached_recommendation now1 (po_pattern_cache opt0) (cache_key_of h cmd desc ctx)) = None
            \<longrightarrow> qr_flags r1 = fst (quick_pattern_match cmd desc ctx)
              \<and> qr_confidence r1 = fst (snd (quick_pattern_match cmd desc ctx)))"
proof -
  let ?key = "cache_key_of h cmd desc ctx"
  have original: "qr_flags r1 = fst (quick_pattern_match cmd desc ctx)
              \<and> qr_confidence r1 = fst (snd (quick_pattern_match cmd desc ctx))"
    if "fst (get_cached_recommendation now1 (po_pattern_cache opt0) ?key) = None"
    by (rule miss_answer[OF first that])
  have hit2: "fst (get_cached_recommendation now2 (po_pattern_cache (run h events opt1))
                (cache_key_of h cmd2 desc2 ctx2)) \<noteq> None"
    using hit same_key by simp
  from hit_answer[OF second hit2] obtain e2
    where m2: "map_of (po_pattern_cache (run h events opt1)) ?key = Some e2"
      and a2: "qr_flags r2 = ce_flags e2" "qr_confidence r2 = ce_confidence e2"
    using same_key by auto
  have "map_option stored_answer (map_of (po_pattern_cache opt1) ?key) = Some (stored_answer e2)"
    using run_keeps_answer[OF between, of opt1] m2 by simp
  then obtain e1 where m1: "map_of (po_pattern_cache opt1) ?key = Some e1"
    and s: "stored_answer e1 = stored_answer e2"
    by auto
  from first_call_stores[OF first] m1
  have "ce_flags e1 = qr_flags r1 \<and> ce_confidence e1 = qr_confidence r1" by auto
  then have "qr_flags r2 = qr_flags r1 \<and> qr_confidence r2 = qr_confidence r1"
    using a2 s by (simp add: stored_answer_def)
  then show ?thesis using original by blast
qed

lemma second_call_hits:
  "fst (get_cached_recommendation 1500 (po_pattern_cache (run example_hash between_events (snd first_call)))
          (cache_key_of example_hash ''analyze'' ''security audit'' empty_context)) \<noteq> None"
  unfolding first_call_def between_events_def run_def by code_simp

lemma first_call_misses:
  "fst (get_cached_recommendation 1000 (po_pattern_cache init_optimizer)
          (cache_key_of example_hash ''analyze'' ''security audit'' empty_context)) = None"
  by code_simp

lemma between_events_keys:
  "\<forall>ev \<in> set between_events.
     event_key example_hash ev \<noteq> Some (cache_key_of example_hash ''analyze'' ''security audit'' empty_context)"
  by (simp add: between_events_def cache_key_of_def)

theorem cache_hit_returns_stored_answer_witness:
  "list_all (\<lambda>ev. event_key example_hash ev
              \<noteq> Some (cache_key_of example_hash ''analyze'' ''security audit'' empty_context))
     between_events
   \<and> fst (get_cached_recommendation 1500 (po_pattern_cache (run example_hash between_events (snd first_call)))
          (cache_key_of example_hash ''analyze'' ''security audit'' empty_context)) \<noteq> None
   \<and> fst (get_cached_recommendation 1000 (po_pattern_cache init_optimizer)
          (cache_key_of example_hash ''analyze'' ''security audit'' empty_context)) = None
   \<and> qr_flags (fst second_call) = qr_flags (fst first_call)
   \<and> qr_confidence (fst second_call) = qr_confidence (fst first_call)
   \<and> qr_confidence (fst first_call) = 95"
proof -
  have f: "get_quick_recommendation example_hash 1 1000 init_optimizer
     ''/sc:analyze security audit'' ''analyze'' ''security audit'' empty_context
       = (fst first_call, snd first_call)"
    by (simp add: first_call_def)
  have s: "get_quick_recommendation example_hash 2 1500 (run example_hash between_events (snd first_call))
     ''/sc:analyze security audit'' ''analyze'' ''security audit'' empty_context
       = (fst second_call, snd second_call)"
    by (simp add: second_call_def)
  have q: "fst (snd (quick_pattern_match ''analyze'' ''security audit'' empty_context)) = 95"
    by code_simp
  from cache_hit_returns_stored_answer[OF f between_events_keys s refl second_call_hits]
  show ?thesis using second_call_hits first_call_misses q between_events_keys
    by (simp add: list_all_iff)
qed

section \<open>Properties of the feedback processor\<close>

subsection \<open>Immediate and explicit feedback\<close>

lemma os_unbound: "load_global ''os'' = Inl (NameError ''os'')"
  by (simp add: load_global_def module_globals_def)

lemma determine_pattern_adjustments_result:
  "determine_pattern_adjustments now st interaction_id t success execution_time
     = (case db st of
          Unreadable \<Rightarrow> Inl DatabaseError
        | Readable tab \<Rightarrow>
            Inr (case find (\<lambda>interaction. str_int (i_id interaction) = interaction_id)
                        (projr (get_user_interactions now st 1 None)) of
                   None \<Rightarrow> []
                 | Some target_interaction \<Rightarrow>
                     fold (flag_adjustment success execution_time)
                       (split_str (i_recommended_flags target_interaction)) []))"
  by (cases "db st")
     (simp_all add: determine_pattern_adjustments_def get_user_interactions_def split: option.splits)

lemma process_immediate_feedback_result:
  "process_immediate_feedback now project_hash st interaction_id success execution_time error_details
     = Inl (case db st of Unreadable \<Rightarrow> DatabaseError | Readable tab \<Rightarrow> NameError ''os'')"
  by (cases "db st")
     (simp_all add: process_immediate_feedback_def determine_pattern_adjustments_result os_unbound Let_def)

lemma process_explicit_feedback_result:
  "process_explicit_feedback now project_hash st interaction_id user_rating user_correction
     = Inl (NameError ''os'')"
  by (simp add: process_explicit_feedback_def os_unbound Let_def)

text \<open>
  Claim C2. Every call of a public operation of the core, in particular of
  \<open>process_immediate_feedback\<close> and \<open>process_explicit_feedback\<close> for any interaction, success
  flag, execution time, rating and details, returns normally and raises no exception.

  Both functions read the global \<open>os\<close>, which the module does not import: every call raises.
  \<open>process_explicit_feedback\<close> raises \<open>NameError\<close> whatever its arguments and the store are;
  \<open>process_immediate_feedback\<close> raises it on a readable store, and the error of the database,
  which it meets first, on an unreadable one. The last two conjuncts are the calls of the
  repository's unit test of the processor on a new store.
\<close>

theorem feedback_processing_raises:
  "process_immediate_feedback now project_hash st interaction_id success execution_time error_details
     = Inl (case db st of Unreadable \<Rightarrow> DatabaseError | Readable tab \<Rightarrow> NameError ''os'')
   \<and> process_explicit_feedback now project_hash st interaction_id user_rating user_correction
     = Inl (NameError ''os'')
   \<and> process_immediate_feedback 1000 ''p'' (init_database ''u'' :: unit LearningStorage)
        ''test_interaction_1'' True 20.5 None = Inl (NameError ''os'')
   \<and> process_explicit_feedback 1000 ''p'' (init_database ''u'' :: unit LearningStorage)
        ''test_interaction_2'' 4 None = Inl (NameError ''os'')"
  by (simp add: process_immediate_feedback_result process_explicit_feedback_result init_database_def)

subsection \<open>The batch\<close>

lemma batch_op_1: "fsub 30 (3 / 2) = 57 / 2"
  unfolding fsub_def by (subst round64_at[of "4"]) (simp_all add: pow2_def py_round_def)

lemma batch_op_2: "fdiv (57 / 2) 30 = 4278419646001971 / 4503599627370496"
  unfolding fdiv_def by (subst round64_at[of "- 1"]) (simp_all add: pow2_def py_round_def)

lemma batch_op_3: "round64 (7 / 10) = 3152519739159347 / 4503599627370496"
  by (subst round64_at[of "- 1"]) (simp_all add: pow2_def py_round_def)

lemma batch_op_4: "fmul 1 (3152519739159347 / 4503599627370496) = 3152519739159347 / 4503599627370496"
  unfolding fmul_def by (subst round64_at[of "- 1"]) (simp_all add: pow2_def py_round_def)

lemma batch_op_5: "round64 (3 / 10) = 5404319552844595 / 18014398509481984"
  by (subst round64_at[of "- 2"]) (simp_all add: pow2_def py_round_def)

lemma batch_op_6: "fmul (4278419646001971 / 4503599627370496) (5404319552844595 / 18014398509481984) = 5134103575202365 / 18014398509481984"
  unfolding fmul_def by (subst round64_at[of "- 2"]) (simp_all add: pow2_def py_round_def)

lemma batch_op_7: "fadd (3152519739159347 / 4503599627370496) (5134103575202365 / 18014398509481984) = 2218022816479969 / 2251799813685248"
  unfolding fadd_def by (subst round64_at[of "- 1"]) (simp_all add: pow2_def py_round_def)

lemma batch_op_8: "fdiv 80 100 = 3602879701896397 / 4503599627370496"
  unfolding fdiv_def by (subst round64_at[of "- 1"]) (simp_all add: pow2_def py_round_def)

lemma batch_op_9: "fsub (3602879701896397 / 4503599627370496) 1 = - (900719925474099 / 4503599627370496)"
  unfolding fsub_def by (subst round64_at[of "- 3"]) (simp_all add: pow2_def py_round_def)

lemma batch_op_10: "fsub 1 (900719925474099 / 4503599627370496) = 3602879701896397 / 4503599627370496"
  unfolding fsub_def by (subst round64_at[of "- 1"]) (simp_all add: pow2_def py_round_def)

lemma batch_op_11: "round64 (1 / 5) = 3602879701896397 / 18014398509481984"
  by (subst round64_at[of "- 3"]) (simp_all add: pow2_def py_round_def)

lemma batch_op_12: "fsub 1 (3602879701896397 / 4503599627370496) = 900719925474099 / 4503599627370496"
  unfolding fsub_def by (subst round64_at[of "- 3"]) (simp_all add: pow2_def py_round_def)

lemma batch_op_13: "fmul (5404319552844595 / 18014398509481984) (900719925474099 / 4503599627370496) = 4323455642275675 / 72057594037927936"
  unfolding fmul_def by (subst round64_at[of "- 5"]) (simp_all add: pow2_def py_round_def)

lemma batch_op_14: "fadd (1 / 2) (5404319552844595 / 18014398509481984) = 3602879701896397 / 4503599627370496"
  unfolding fadd_def by (subst round64_at[of "- 1"]) (simp_all add: pow2_def py_round_def)

lemma batch_op_15: "fadd (3602879701896397 / 4503599627370496) (3602879701896397 / 18014398509481984) = 1"
  unfolding fadd_def by (subst round64_at[of "0"]) (simp_all add: pow2_def py_round_def)

lemma batch_op_16: "fadd 1 (4323455642275675 / 72057594037927936) = 2386907802506363 / 2251799813685248"
  unfolding fadd_def by (subst round64_at[of "0"]) (simp_all add: pow2_def py_round_def)

lemma batch_op_17: "round64 (1 / 20) = 3602879701896397 / 72057594037927936"
  by (subst round64_at[of "- 5"]) (simp_all add: pow2_def py_round_def)

lemma batch_op_18: "fmul (3602879701896397 / 4503599627370496) (3602879701896397 / 72057594037927936) = 1441151880758559 / 36028797018963968"
  unfolding fmul_def by (subst round64_at[of "- 5"]) (simp_all add: pow2_def py_round_def)

lemma batch_op_19: "round64 (1 / 10) = 3602879701896397 / 36028797018963968"
  by (subst round64_at[of "- 4"]) (simp_all add: pow2_def py_round_def)

lemma batch_op_20: "fmul (2218022816479969 / 2251799813685248) (3602879701896397 / 36028797018963968) = 7097673012735901 / 72057594037927936"
  unfolding fmul_def by (subst round64_at[of "- 4"]) (simp_all add: pow2_def py_round_def)

lemma batch_op_21: "fadd 0 (7097673012735901 / 72057594037927936) = 7097673012735901 / 72057594037927936"
  unfolding fadd_def by (subst round64_at[of "- 4"]) (simp_all add: pow2_def py_round_def)

lemma batch_op_22: "fdiv (7097673012735901 / 72057594037927936) 1 = 7097673012735901 / 72057594037927936"
  unfolding fdiv_def by (subst round64_at[of "- 4"]) (simp_all add: pow2_def py_round_def)

lemma batch_op_23: "fadd 0 (1441151880758559 / 36028797018963968) = 1441151880758559 / 36028797018963968"
  unfolding fadd_def by (subst round64_at[of "- 5"]) (simp_all add: pow2_def py_round_def)

lemma batch_op_24: "fdiv (1441151880758559 / 36028797018963968) 1 = 1441151880758559 / 36028797018963968"
  unfolding fdiv_def by (subst round64_at[of "- 5"]) (simp_all add: pow2_def py_round_def)

lemmas batch_ops =
  batch_op_1 batch_op_2 batch_op_3 batch_op_4 batch_op_5 batch_op_6
  batch_op_7 batch_op_8 batch_op_9 batch_op_10 batch_op_11 batch_op_12
  batch_op_13 batch_op_14 batch_op_15 batch_op_16 batch_op_17 batch_op_18
  batch_op_19 batch_op_20 batch_op_21 batch_op_22 batch_op_23 batch_op_24

lemma str_int_1: "str_int 1 = ''1''"
  by code_simp

lemma example_window:
  "now < 605700 \<Longrightarrow> get_user_interactions now example_storage 7 None = Inr [example_interaction]"
  by (simp add: get_user_interactions_def example_storage_def example_tables_def example_interaction_def)


lemma example_analysis:
  "analyze_interaction_for_batch_processing example_interaction
     = Some \<lparr>performance_score = 2218022816479969 / 2251799813685248,
             confidence_accuracy = 3602879701896397 / 4503599627370496,
             learning_value = 2386907802506363 / 2251799813685248\<rparr>"
  by (simp add: analyze_interaction_for_batch_processing_def example_interaction_def
      calculate_performance_score_def calculate_confidence_accuracy_def calculate_learning_value_def
      Let_def batch_ops)

lemma example_batch_run:
  assumes "now < 605700"
  shows "process_batch_feedback now example_storage 7
     = Inr ([\<lparr>pf_feedback_id = BatchId 1 now, pf_feedback_type = PERFORMANCE_FEEDBACK,
              pf_learning_weight = 2386907802506363 / 2251799813685248,
              pf_confidence_impact = 1441151880758559 / 36028797018963968,
              pf_pattern_adjustments = batch_adjustments,
              pf_personalization_updates =
                [(''batch_learning'', [(''weight'', 2386907802506363 / 2251799813685248)])],
              pf_processing_timestamp = now\<rparr>],
            batch_printed)"
proof -
  have id1: "i_id example_interaction = 1" by (simp add: example_interaction_def)
  show ?thesis
    by (simp add: process_batch_feedback_def example_window[OF assms] is_feedback_processed_def
        example_analysis create_batch_processed_feedback_def batch_adjustments_def batch_printed_def
        collect_update_def apply_batch_updates_def get_or_def id1 Let_def batch_ops)
qed

text \<open>
  Claim C5. A second run of the batch over the same window of interactions applies no pattern
  adjustment beyond those of the first run: feedback that an earlier run has applied is
  recognised as processed and is not applied again.

  \<open>_is_feedback_processed\<close> answers \<open>False\<close> always and a run writes nothing, neither to the
  store nor to the processor, so that a later run finds what the first found: on the store
  with one interaction the second run returns a processed feedback with the same two
  adjustments and hands the same two averages to \<open>_apply_batch_updates\<close>.
\<close>

theorem batch_feedback_reprocessed:
  "map_sum id (map pf_pattern_adjustments \<circ> fst) first_run = Inr [batch_adjustments]
   \<and> map_sum id (map pf_pattern_adjustments \<circ> fst) second_run = Inr [batch_adjustments]
   \<and> map_sum id snd first_run = Inr batch_printed
   \<and> map_sum id snd second_run = Inr batch_printed"
proof -
  have a: "(1000::int) < 605700" and b: "(2000::int) < 605700" by simp_all
  show ?thesis
    by (simp add: first_run_def second_run_def example_batch_run[OF a] example_batch_run[OF b])
qed

end
